theory Spec2Isabelle
  imports Main "HOL-Library.Word"
begin

section \<open>The x86-64 IR JIT backend (Core/MIPS/x86/X64IRJit.cpp)\<close>

text \<open>
  The backend emits host code into one contiguous code region, keeps a record of the
  exit sites that can later be rewritten into direct jumps, and patches or invalidates
  code that was emitted earlier.

  Pointers into the code region are represented by their byte offset from
  \<open>GetBasePtr()\<close>, so \<open>GetOffset(p)\<close> is \<open>p\<close> itself and \<open>GetBasePtr() + n\<close> is \<open>n\<close>.
  The source stores offsets in \<open>int\<close>; its comment "the codespace isn't large enough
  to overflow offsets" (the region is 16 MiB) is taken at its word and offsets are
  unbounded integers.
\<close>

type_synonym u8 = "8 word"
type_synonym u32 = "32 word"

subsection \<open>Constants\<close>

definition MIN_BLOCK_NORMAL_LEN :: int where
  "MIN_BLOCK_NORMAL_LEN = 16"

definition MIN_BLOCK_EXIT_LEN :: int where
  "MIN_BLOCK_EXIT_LEN = 16"

subsection \<open>Data\<close>

text \<open>
  The host instructions the file asks the emitter for, one constructor per call shape:
  \<^item> \<open>JMP t\<close>: \<open>JMP(ptr, true)\<close>, an unconditional jump to offset \<open>t\<close>;
  \<^item> \<open>MOV_SCRATCH1_Imm32 v\<close>: \<open>MOV(32, R(SCRATCH1), Imm32(v))\<close>;
  \<^item> \<open>CMP_downcount_Imm32_0\<close>: \<open>CMP(32, MDisp(CTXREG, downcountOffset), Imm32(0))\<close>;
  \<^item> \<open>J_CC_NS_fixup t\<close>: \<open>J_CC(CC_NS)\<close>, a forward branch whose target is unknown
    (\<open>None\<close>) until \<open>SetJumpTarget\<close> fills it in;
  \<^item> \<open>J_CC_NS t\<close>: \<open>J_CC(CC_NS, ptr, true)\<close>;
  \<^item> \<open>ABI_CallFunction_NoBlockExits\<close>: \<open>ABI_CallFunction((const void *)&NoBlockExits)\<close>.
\<close>

datatype host_op =
    JMP int
  | MOV_SCRATCH1_Imm32 u32
  | CMP_downcount_Imm32_0
  | J_CC_NS_fixup "int option"
  | J_CC_NS int
  | ABI_CallFunction_NoBlockExits

datatype mem_prot = MEM_PROT_READ_WRITE | MEM_PROT_READ_EXEC

datatype IROp = ExitToConst | OtherOp

record IRInst =
  op :: IROp
  constant' :: u32

record IRBlock =
  originalStart :: u32
  targetOffset :: int
  instructions :: "IRInst list"

record IRNativeBlock =
  checkedOffset :: int

text \<open>
  An exit-site record as the spec's data model has it: owning block id, target guest
  PC, byte offset of the patch site, byte length reserved for the patch.
\<close>

record exit_site =
  exit_block :: int
  exit_dest :: u32
  exit_offset :: int
  exit_len :: int

record JitOptions =
  enableBlocklink :: bool
  useBackJump :: bool
  disabled_REGALLOC_GPR :: bool
  disabled_REGALLOC_FPR :: bool

text \<open>
  What the file takes from outside and never changes is collected in one parameter:
  the emitter's instruction encodings (\<open>enc op pos\<close> is the byte sequence of \<open>op\<close>
  when written at offset \<open>pos\<close>) and its padding byte, the bytes the per-opcode
  generators and the register cache's flush produce, and the platform's answers to
  \<open>PlatformIsWXExclusive()\<close>, \<open>DebugStatsEnabled()\<close> and its page size.
\<close>

record platform =
  enc :: "host_op \<Rightarrow> int \<Rightarrow> u8 list"
  filler :: u8
  genInst :: "IRInst \<Rightarrow> int \<Rightarrow> u8 list"
  genFlushAll :: "IRInst \<Rightarrow> int \<Rightarrow> u8 list"
  PlatformIsWXExclusive :: bool
  DebugStatsEnabled :: bool
  pageSize :: int

text \<open>
  An emitter is a memory and a write pointer. The backend is an emitter (it inherits
  from the code block class) with the bookkeeping of the backend class added.
  \<open>blocks\<close> is the externally owned lookup \<open>GetBlockNumberFromStartAddress\<close>;
  \<open>nativeBlocks\<close> holds the metadata \<open>GetNativeBlock\<close> returns, \<open>None\<close> standing for
  the null pointer. Member names are the source's without the trailing underscore.
\<close>

record XEmitter =
  mem :: "int \<Rightarrow> u8"
  code_ptr :: int

record backend = XEmitter +
  region_size :: int
  prot :: "int \<Rightarrow> mem_prot"
  jo :: JitOptions
  blocks :: "u32 \<Rightarrow> int"
  nativeBlocks :: "int \<rightharpoonup> IRNativeBlock"
  exits :: "exit_site list"
  compilingBlockNum :: int
  logBlocks :: int
  dispatcherPCInSCRATCH1 :: int
  outerLoopPCInSCRATCH1 :: int
  crashHandler :: int

subsection \<open>The emitter\<close>

fun write_bytes :: "u8 list \<Rightarrow> int \<Rightarrow> (int \<Rightarrow> u8) \<Rightarrow> (int \<Rightarrow> u8)" where
  "write_bytes [] p m = m"
| "write_bytes (b # bs) p m = write_bytes bs (p + 1) (m(p := b))"

definition read_bytes :: "(int \<Rightarrow> u8) \<Rightarrow> int \<Rightarrow> nat \<Rightarrow> u8 list" where
  "read_bytes m p n = map (\<lambda>i. m (p + int i)) [0..<n]"

text \<open>\<open>code_at m p bs\<close>: the bytes \<open>bs\<close> are what memory \<open>m\<close> holds from offset \<open>p\<close>.\<close>

definition code_at :: "(int \<Rightarrow> u8) \<Rightarrow> int \<Rightarrow> u8 list \<Rightarrow> bool" where
  "code_at m p bs = (read_bytes m p (length bs) = bs)"

text \<open>
  Modelled from the spec: the emitter class is defined outside X64IRJit.cpp. Emitting
  writes bytes at the write pointer and moves the pointer past them; an instruction is
  emitted as the bytes the parameter \<open>enc\<close> gives for it at that offset.
\<close>

definition Write_bytes :: "u8 list \<Rightarrow> 'a XEmitter_scheme \<Rightarrow> 'a XEmitter_scheme" where
  "Write_bytes bs e =
     e\<lparr>mem := write_bytes bs (code_ptr e) (mem e),
       code_ptr := code_ptr e + int (length bs)\<rparr>"

definition emit :: "platform \<Rightarrow> host_op \<Rightarrow> 'a XEmitter_scheme \<Rightarrow> 'a XEmitter_scheme" where
  "emit P i e = Write_bytes (enc P i (code_ptr e)) e"

text \<open>
  Modelled from the spec: \<open>XEmitter::ReserveCodeSpace\<close> is defined outside
  X64IRJit.cpp. The spec has \<open>reserve(n)\<close> move the cursor by
  \<open>n\<close> bytes as padding, the reserved bytes being padded with a filler.
\<close>

definition ReserveCodeSpace :: "platform \<Rightarrow> int \<Rightarrow> 'a XEmitter_scheme \<Rightarrow> 'a XEmitter_scheme" where
  "ReserveCodeSpace P n e = Write_bytes (replicate (nat n) (filler P)) e"

text \<open>
  Modelled from the spec: \<open>SetJumpTarget\<close> is defined outside X64IRJit.cpp.
  It resolves the forward branch emitted earlier at \<open>pos\<close> (the guard's
  "otherwise fall through") to the current write pointer; the write pointer itself does
  not move.
\<close>

definition SetJumpTarget :: "platform \<Rightarrow> int \<Rightarrow> 'a XEmitter_scheme \<Rightarrow> 'a XEmitter_scheme" where
  "SetJumpTarget P pos e =
     e\<lparr>mem := write_bytes (enc P (J_CC_NS_fixup (Some (code_ptr e))) pos) pos (mem e)\<rparr>"

text \<open>
  Modelled from the spec: \<open>GetSpaceLeft\<close> is defined outside X64IRJit.cpp;
  it reports the free bytes of the region, those from the cursor to the region's end.
\<close>

definition GetSpaceLeft :: "backend \<Rightarrow> int" where
  "GetSpaceLeft s = region_size s - code_ptr s"

subsection \<open>Block metadata and the exit-site table\<close>

text \<open>
  Modelled from the spec: \<open>GetNativeBlock\<close> is defined outside X64IRJit.cpp;
  it looks up a block id's metadata, and the caller tests the result against null.
\<close>

definition GetNativeBlock :: "backend \<Rightarrow> int \<Rightarrow> IRNativeBlock option" where
  "GetNativeBlock s block_num = nativeBlocks s block_num"

text \<open>
  Modelled from the spec: \<open>SetBlockCheckedOffset\<close> is defined outside
  X64IRJit.cpp; it records the \<open>checkedOffset\<close> of a block id in the block's
  metadata.
\<close>

definition SetBlockCheckedOffset :: "int \<Rightarrow> int \<Rightarrow> backend \<Rightarrow> backend" where
  "SetBlockCheckedOffset block_num off s =
     s\<lparr>nativeBlocks := (nativeBlocks s)(block_num \<mapsto> \<lparr>checkedOffset = off\<rparr>)\<rparr>"

text \<open>
  Modelled from the spec: \<open>AddLinkableExit\<close> is defined outside
  X64IRJit.cpp; it registers an exit-site record keyed by the given block id.
\<close>

definition AddLinkableExit :: "int \<Rightarrow> u32 \<Rightarrow> int \<Rightarrow> int \<Rightarrow> backend \<Rightarrow> backend" where
  "AddLinkableExit block_num pc exitStartOffset exitLen s =
     s\<lparr>exits := exits s @
         [\<lparr>exit_block = block_num, exit_dest = pc,
           exit_offset = exitStartOffset, exit_len = exitLen\<rparr>]\<rparr>"

text \<open>
  Modelled from the spec: \<open>EraseAllLinks\<close> is defined outside X64IRJit.cpp.
  For a block id the spec has it remove every exit-site record whose target was this
  block id; a record's target is the block its target guest PC maps to.
\<close>

definition targets :: "backend \<Rightarrow> exit_site \<Rightarrow> int \<Rightarrow> bool" where
  "targets s r block_num = (blocks s (exit_dest r) = block_num)"

definition EraseAllLinks :: "int \<Rightarrow> backend \<Rightarrow> backend" where
  "EraseAllLinks block_num s =
     s\<lparr>exits := filter (\<lambda>r. \<not> targets s r block_num) (exits s)\<rparr>"

text \<open>
  Modelled from the spec: \<open>ProtectMemoryPages\<close> is defined outside
  X64IRJit.cpp. Permissions are toggled per page: every page that meets the byte range
  gets the new protection.
\<close>

definition ProtectMemoryPages :: "platform \<Rightarrow> int \<Rightarrow> int \<Rightarrow> mem_prot \<Rightarrow> backend \<Rightarrow> backend" where
  "ProtectMemoryPages P ptr size' flags s =
     s\<lparr>prot := (\<lambda>pg. if ptr div pageSize P \<le> pg
                          \<and> pg < (ptr + size' + pageSize P - 1) div pageSize P
                       then flags else prot s pg)\<rparr>"

subsection \<open>Exits\<close>

text \<open>
  The jump that \<open>WriteConstExit\<close> emits, lines 161 to 168: straight to the target's
  checked entry when the target is known, compiled and linking is on, through the
  dispatcher otherwise. The conjunction is the source's; \<open>nativeBlock\<close> is only
  dereferenced where it is not null.
\<close>

definition WriteConstExit_jump :: "platform \<Rightarrow> u32 \<Rightarrow> backend \<Rightarrow> backend" where
  "WriteConstExit_jump P pc s =
     (let block_num = blocks s pc;
          nativeBlock = GetNativeBlock s block_num
      in if block_num \<ge> 0 \<and> enableBlocklink (jo s) \<and> nativeBlock \<noteq> None
            \<and> checkedOffset (the nativeBlock) \<noteq> 0
         then emit P (JMP (checkedOffset (the nativeBlock))) s
         else emit P (JMP (dispatcherPCInSCRATCH1 s)) (emit P (MOV_SCRATCH1_Imm32 pc) s))"

definition WriteConstExit :: "platform \<Rightarrow> u32 \<Rightarrow> backend \<Rightarrow> backend" where
  "WriteConstExit P pc s =
     (let exitStart = code_ptr s;
          s1 = WriteConstExit_jump P pc s
      in if enableBlocklink (jo s1) then
           (let len = code_ptr s1 - exitStart
            in if len < MIN_BLOCK_EXIT_LEN
               then AddLinkableExit (compilingBlockNum s1) pc exitStart MIN_BLOCK_EXIT_LEN
                      (ReserveCodeSpace P (MIN_BLOCK_EXIT_LEN - len) s1)
               else AddLinkableExit (compilingBlockNum s1) pc exitStart len s1)
         else s1)"

text \<open>
  The local \<open>XEmitter emitter(writable)\<close> writes into the backend's memory through a
  write pointer of its own. The debug-only assertion \<open>len >= MIN_BLOCK_EXIT_LEN\<close> has
  no effect on what the function does.
\<close>

definition OverwriteExit :: "platform \<Rightarrow> int \<Rightarrow> int \<Rightarrow> int \<Rightarrow> backend \<Rightarrow> backend" where
  "OverwriteExit P srcOffset len block_num s =
     (case GetNativeBlock s block_num of
        None \<Rightarrow> s
      | Some nativeBlock \<Rightarrow>
          (let writable = srcOffset;
               s1 = (if PlatformIsWXExclusive P
                     then ProtectMemoryPages P writable len MEM_PROT_READ_WRITE s else s);
               emitter = \<lparr>mem = mem s1, code_ptr = writable\<rparr>;
               e1 = emit P (JMP (checkedOffset nativeBlock)) emitter;
               bytesWritten = code_ptr e1 - writable;
               e2 = (if bytesWritten < len
                     then ReserveCodeSpace P (len - bytesWritten) e1 else e1);
               s2 = s1\<lparr>mem := mem e2\<rparr>
           in if PlatformIsWXExclusive P
              then ProtectMemoryPages P writable 16 MEM_PROT_READ_EXEC s2 else s2))"

subsection \<open>Invalidation\<close>

definition InvalidateBlock :: "platform \<Rightarrow> IRBlock \<Rightarrow> int \<Rightarrow> backend \<Rightarrow> backend" where
  "InvalidateBlock P block block_num s =
     (let offset = targetOffset block;
          writable = offset;
          pc = originalStart block;
          s3 = (if pc \<noteq> 0 then
                  (let s1 = (if PlatformIsWXExclusive P
                             then ProtectMemoryPages P writable MIN_BLOCK_NORMAL_LEN
                                    MEM_PROT_READ_WRITE s
                             else s);
                       emitter = \<lparr>mem = mem s1, code_ptr = writable\<rparr>;
                       e1 = emit P (MOV_SCRATCH1_Imm32 pc) emitter;
                       e2 = emit P (JMP (dispatcherPCInSCRATCH1 s1)) e1;
                       bytesWritten = code_ptr e2 - writable;
                       e3 = (if bytesWritten < MIN_BLOCK_NORMAL_LEN
                             then ReserveCodeSpace P (MIN_BLOCK_NORMAL_LEN - bytesWritten) e2
                             else e2);
                       s2 = s1\<lparr>mem := mem e3\<rparr>
                   in if PlatformIsWXExclusive P
                      then ProtectMemoryPages P writable MIN_BLOCK_NORMAL_LEN
                             MEM_PROT_READ_EXEC s2
                      else s2)
                else s)
      in EraseAllLinks block_num s3)"

subsection \<open>Compiling a block\<close>

text \<open>
  Modelled from the spec: \<open>CompileIRInst\<close> and the per-opcode generators are
  defined outside X64IRJit.cpp. An instruction's generator emits its host code at the
  cursor; an exit to a constant guest PC ends by writing that exit with
  \<open>WriteConstExit\<close>.
\<close>

definition CompileIRInst :: "platform \<Rightarrow> IRInst \<Rightarrow> backend \<Rightarrow> backend" where
  "CompileIRInst P inst s =
     (let s1 = Write_bytes (genInst P inst (code_ptr s)) s
      in case op inst of
           ExitToConst \<Rightarrow> WriteConstExit P (constant' inst) s1
         | OtherOp \<Rightarrow> s1)"

text \<open>
  The instruction loop of \<open>CompileBlock\<close>. It returns \<open>False\<close> with the marker
  cleared when the space check after an instruction fails. The register cache's own
  state (\<open>regs_.SetIRIndex\<close>) and the \<open>addresses\<close> map, which only the log output
  reads, are left out.
\<close>

fun CompileBlock_loop :: "platform \<Rightarrow> IRInst list \<Rightarrow> backend \<Rightarrow> bool \<times> backend" where
  "CompileBlock_loop P [] s = (True, s)"
| "CompileBlock_loop P (inst # rest) s =
     (let s1 = CompileIRInst P inst s;
          s2 = (if disabled_REGALLOC_GPR (jo s1) \<or> disabled_REGALLOC_FPR (jo s1)
                then Write_bytes (genFlushAll P inst (code_ptr s1)) s1 else s1)
      in if GetSpaceLeft s2 < 0x800
         then (False, s2\<lparr>compilingBlockNum := - 1\<rparr>)
         else CompileBlock_loop P rest s2)"

text \<open>The entry guard of the forward-check style, lines 62 to 71.\<close>

definition entry_guard :: "platform \<Rightarrow> int \<Rightarrow> u32 \<Rightarrow> backend \<Rightarrow> backend" where
  "entry_guard P block_num startPC s =
     (let s1 = SetBlockCheckedOffset block_num (code_ptr s) s;
          s2 = emit P CMP_downcount_Imm32_0 s1;
          normalEntry = code_ptr s2;
          s3 = emit P (J_CC_NS_fixup None) s2;
          s4 = emit P (MOV_SCRATCH1_Imm32 startPC) s3;
          s5 = emit P (JMP (outerLoopPCInSCRATCH1 s4)) s4
      in SetJumpTarget P normalEntry s5)"

text \<open>The tail guard of the back-jump style, lines 119 to 124.\<close>

definition back_jump_guard :: "platform \<Rightarrow> int \<Rightarrow> u32 \<Rightarrow> backend \<Rightarrow> backend" where
  "back_jump_guard P blockStart startPC s =
     (let s1 = emit P CMP_downcount_Imm32_0 s;
          s2 = emit P (J_CC_NS blockStart) s1;
          s3 = emit P (MOV_SCRATCH1_Imm32 startPC) s2
      in emit P (JMP (outerLoopPCInSCRATCH1 s3)) s3)"

text \<open>
  What \<open>CompileBlock\<close> does once the loop has run through, lines 100 to 151: the
  debug-only trap, the padding to \<open>MIN_BLOCK_NORMAL_LEN\<close>, the checked offset when it
  was not written up front, the tail guard, the log countdown, and the marker reset.
  Of the log path only the countdown of \<open>logBlocks\<close> is state; the text it prints is
  not modelled.
\<close>

definition CompileBlock_finish ::
    "platform \<Rightarrow> IRBlock \<Rightarrow> int \<Rightarrow> bool \<Rightarrow> int \<Rightarrow> u32 \<Rightarrow> backend \<Rightarrow> backend" where
  "CompileBlock_finish P block block_num wroteCheckedOffset blockStart startPC s3 =
     (let s4 = (if DebugStatsEnabled P
                then emit P (JMP (crashHandler s3))
                       (emit P ABI_CallFunction_NoBlockExits s3)
                else s3);
          len = code_ptr s4 - targetOffset block;
          s5 = (if len < MIN_BLOCK_NORMAL_LEN
                then ReserveCodeSpace P (MIN_BLOCK_NORMAL_LEN - len) s4 else s4);
          s6 = (if \<not> wroteCheckedOffset
                then SetBlockCheckedOffset block_num (code_ptr s5) s5 else s5);
          s7 = (if enableBlocklink (jo s6) \<and> useBackJump (jo s6)
                then back_jump_guard P blockStart startPC s6 else s6);
          s8 = (if logBlocks s7 > 0
                then s7\<lparr>logBlocks := logBlocks s7 - 1\<rparr> else s7)
      in s8\<lparr>compilingBlockNum := - 1\<rparr>)"

text \<open>
  \<open>CompileBlock\<close> returns its result together with the block, whose \<open>targetOffset\<close>
  it sets through the pointer it is given, and the backend.
\<close>

definition CompileBlock ::
    "platform \<Rightarrow> IRBlock \<Rightarrow> int \<Rightarrow> bool \<Rightarrow> backend \<Rightarrow> bool \<times> IRBlock \<times> backend" where
  "CompileBlock P block block_num preload s =
     (if GetSpaceLeft s < 0x800 then (False, block, s)
      else
        (let startPC = originalStart block;
             wroteCheckedOffset = (enableBlocklink (jo s) \<and> \<not> useBackJump (jo s));
             s1 = (if wroteCheckedOffset then entry_guard P block_num startPC s else s);
             blockStart = code_ptr s1;
             block1 = block\<lparr>targetOffset := blockStart\<rparr>;
             s2 = s1\<lparr>compilingBlockNum := block_num\<rparr>
         in case CompileBlock_loop P (instructions block1) s2 of
              (False, s3) \<Rightarrow> (False, block1, s3)
            | (True, s3) \<Rightarrow>
                (True, block1,
                 CompileBlock_finish P block1 block_num wroteCheckedOffset blockStart startPC s3)))"

subsection \<open>A concrete platform and backend\<close>

text \<open>
  An instance of the parameters on which the definitions can be run: the usual
  x86-64 encodings of the six instructions (relative displacements and immediates
  little-endian), \<open>int3\<close> as padding, four bytes of host code per IR instruction, 4 KiB
  pages with exclusive write/execute permission.
\<close>

definition le32 :: "int \<Rightarrow> u8 list" where
  "le32 x = [word_of_int x, word_of_int (x div 256),
             word_of_int (x div 65536), word_of_int (x div 16777216)]"

fun x64_enc :: "host_op \<Rightarrow> int \<Rightarrow> u8 list" where
  "x64_enc (JMP t) pos = 0xE9 # le32 (t - (pos + 5))"
| "x64_enc (MOV_SCRATCH1_Imm32 v) pos = 0xB8 # le32 (uint v)"
| "x64_enc CMP_downcount_Imm32_0 pos = [0x83, 0x7B, 0x08, 0x00]"
| "x64_enc (J_CC_NS_fixup None) pos = [0x79, 0x00]"
| "x64_enc (J_CC_NS_fixup (Some t)) pos = [0x79, word_of_int (t - (pos + 2))]"
| "x64_enc (J_CC_NS t) pos = 0x0F # 0x89 # le32 (t - (pos + 6))"
| "x64_enc ABI_CallFunction_NoBlockExits pos = 0xE8 # le32 (0x40 - (pos + 5))"

definition x64 :: platform where
  "x64 = \<lparr>enc = x64_enc, filler = 0xCC,
          genInst = (\<lambda>inst pos. [0x90, 0x90, 0x90, 0x90]),
          genFlushAll = (\<lambda>inst pos. []),
          PlatformIsWXExclusive = True, DebugStatsEnabled = False, pageSize = 4096\<rparr>"

text \<open>
  A backend as the constructor leaves it, with the trampolines below offset
  \<open>0x100\<close>, the cursor at \<open>0x100\<close>, every page executable, no block known and
  linking enabled in the forward-check style.
\<close>

definition backend0 :: backend where
  "backend0 = \<lparr>mem = (\<lambda>a. 0), code_ptr = 0x100,
               region_size = 1024 * 1024 * 16,
               prot = (\<lambda>pg. MEM_PROT_READ_EXEC),
               jo = \<lparr>enableBlocklink = True, useBackJump = False,
                     disabled_REGALLOC_GPR = False, disabled_REGALLOC_FPR = False\<rparr>,
               blocks = (\<lambda>pc. - 1),
               nativeBlocks = Map.empty,
               exits = [],
               compilingBlockNum = - 1,
               logBlocks = 0,
               dispatcherPCInSCRATCH1 = 0x20,
               outerLoopPCInSCRATCH1 = 0x10,
               crashHandler = 0x80\<rparr>"

text \<open>A block of two IR instructions, the second an exit to a constant guest PC.\<close>

definition block0 :: IRBlock where
  "block0 = \<lparr>originalStart = 0x8804000, targetOffset = 0,
              instructions = [\<lparr>op = OtherOp, constant' = 0\<rparr>,
                              \<lparr>op = ExitToConst, constant' = 0x8804100\<rparr>]\<rparr>"

text \<open>
  \<open>backend1\<close>: block 3 starts at guest PC \<open>0x8804100\<close> and has been compiled, its
  checked entry at \<open>0x400\<close>; block 7 is being compiled.
  \<open>backend2\<close>: as \<open>backend1\<close>, but block 3 has metadata and no checked entry yet.
  \<open>backend3\<close>: as \<open>backend1\<close>, with two exit sites of block 7 on record, the first
  to block 3. \<open>block3\<close> is block 3 itself.
  \<open>backend4\<close>: sixteen bytes more than the threshold are left.
  \<open>backend5\<close>: linking is disabled.
\<close>

definition backend1 :: backend where
  "backend1 = backend0\<lparr>blocks := (\<lambda>pc. if pc = 0x8804100 then 3 else - 1),
                        nativeBlocks := [3 \<mapsto> \<lparr>checkedOffset = 0x400\<rparr>],
                        compilingBlockNum := 7\<rparr>"

definition backend2 :: backend where
  "backend2 = backend1\<lparr>nativeBlocks := [3 \<mapsto> \<lparr>checkedOffset = 0\<rparr>]\<rparr>"

definition backend3 :: backend where
  "backend3 = backend1\<lparr>exits :=
      [\<lparr>exit_block = 7, exit_dest = 0x8804100, exit_offset = 0x118, exit_len = 16\<rparr>,
       \<lparr>exit_block = 7, exit_dest = 0x8804200, exit_offset = 0x130, exit_len = 16\<rparr>]\<rparr>"

definition block3 :: IRBlock where
  "block3 = \<lparr>originalStart = 0x8804100, targetOffset = 0x410, instructions = []\<rparr>"

definition backend4 :: backend where
  "backend4 = backend0\<lparr>code_ptr := 0xFFF7F0\<rparr>"

definition backend5 :: backend where
  "backend5 = backend0\<lparr>jo := \<lparr>enableBlocklink = False, useBackJump = False,
                                disabled_REGALLOC_GPR = False,
                                disabled_REGALLOC_FPR = False\<rparr>\<rparr>"

subsection \<open>Notions used in the statements\<close>

text \<open>
  \<open>links s pc\<close> is the condition under which \<open>WriteConstExit\<close> jumps straight to the
  target; \<open>jump_bytes\<close> is the code of the exit in either case.
\<close>

definition links :: "backend \<Rightarrow> u32 \<Rightarrow> bool" where
  "links s pc \<longleftrightarrow> blocks s pc \<ge> 0 \<and> enableBlocklink (jo s)
      \<and> GetNativeBlock s (blocks s pc) \<noteq> None
      \<and> checkedOffset (the (GetNativeBlock s (blocks s pc))) \<noteq> 0"

definition jump_bytes :: "platform \<Rightarrow> u32 \<Rightarrow> backend \<Rightarrow> u8 list" where
  "jump_bytes P pc s =
     (if links s pc
      then enc P (JMP (checkedOffset (the (GetNativeBlock s (blocks s pc))))) (code_ptr s)
      else enc P (MOV_SCRATCH1_Imm32 pc) (code_ptr s)
           @ enc P (JMP (dispatcherPCInSCRATCH1 s))
               (code_ptr s + int (length (enc P (MOV_SCRATCH1_Imm32 pc) (code_ptr s)))))"

text \<open>
  \<open>entry_patch\<close> is the code that sends an invalidated block back to the dispatcher:
  load the block's guest PC into the scratch register, jump to the dispatcher entry.
\<close>

definition entry_patch :: "platform \<Rightarrow> IRBlock \<Rightarrow> backend \<Rightarrow> u8 list" where
  "entry_patch P block s =
     enc P (MOV_SCRATCH1_Imm32 (originalStart block)) (targetOffset block)
     @ enc P (JMP (dispatcherPCInSCRATCH1 s))
         (targetOffset block
          + int (length (enc P (MOV_SCRATCH1_Imm32 (originalStart block)) (targetOffset block))))"

text \<open>
  \<open>forward_check\<close>: linking is enabled in the forward-check style, so that the guard
  is emitted in front of the body. \<open>padded_body_end\<close> is the offset reached after the
  padded body when no guard was emitted in front of it: the end of the loop's output
  and of the debug-only trap, or \<open>MIN_BLOCK_NORMAL_LEN\<close> bytes past the start if
  that is further.
\<close>

definition forward_check :: "backend \<Rightarrow> bool" where
  "forward_check s \<longleftrightarrow> enableBlocklink (jo s) \<and> \<not> useBackJump (jo s)"

definition padded_body_end :: "platform \<Rightarrow> IRBlock \<Rightarrow> int \<Rightarrow> backend \<Rightarrow> int" where
  "padded_body_end P block block_num s =
     (let s3 = snd (CompileBlock_loop P (instructions block) (s\<lparr>compilingBlockNum := block_num\<rparr>));
          s4 = (if DebugStatsEnabled P
                then emit P (JMP (crashHandler s3)) (emit P ABI_CallFunction_NoBlockExits s3)
                else s3)
      in max (code_ptr s4) (code_ptr s + MIN_BLOCK_NORMAL_LEN))"

section \<open>Lemmas\<close>

lemmas model_defs =
  CompileBlock_def CompileBlock_finish_def entry_guard_def back_jump_guard_def
  CompileIRInst_def WriteConstExit_def WriteConstExit_jump_def OverwriteExit_def
  InvalidateBlock_def GetSpaceLeft_def GetNativeBlock_def SetBlockCheckedOffset_def
  AddLinkableExit_def EraseAllLinks_def targets_def ProtectMemoryPages_def emit_def
  Write_bytes_def ReserveCodeSpace_def SetJumpTarget_def MIN_BLOCK_NORMAL_LEN_def
  MIN_BLOCK_EXIT_LEN_def x64_def backend0_def le32_def block0_def backend1_def
  backend2_def backend3_def block3_def backend4_def backend5_def forward_check_def
  padded_body_end_def entry_patch_def

subsection \<open>Memory\<close>

lemma write_bytes_outside:
  "q < p \<or> p + int (length bs) \<le> q \<Longrightarrow> write_bytes bs p m q = m q"
  by (induction bs arbitrary: p m) auto

lemma write_bytes_inside:
  "p \<le> q \<Longrightarrow> q < p + int (length bs) \<Longrightarrow> write_bytes bs p m q = bs ! nat (q - p)"
proof (induction bs arbitrary: p m)
  case Nil
  then show ?case by simp
next
  case (Cons b bs)
  show ?case
  proof (cases "q = p")
    case True
    then show ?thesis by (simp add: write_bytes_outside)
  next
    case False
    with Cons.prems have a: "p + 1 \<le> q" and b: "q < (p + 1) + int (length bs)" by simp_all
    have n: "nat (q - p) = Suc (nat (q - (p + 1)))" using a by linarith
    have "write_bytes (b # bs) p m q = write_bytes bs (p + 1) (m(p := b)) q" by simp
    also have "\<dots> = bs ! nat (q - (p + 1))" by (rule Cons.IH [OF a b])
    also have "\<dots> = (b # bs) ! nat (q - p)" by (simp only: n nth_Cons_Suc)
    finally show ?thesis .
  qed
qed

lemma code_at_iff:
  "code_at m p bs \<longleftrightarrow> (\<forall>i < length bs. m (p + int i) = bs ! i)"
proof -
  have "code_at m p bs \<longleftrightarrow> map (\<lambda>i. m (p + int i)) [0..<length bs] = bs"
    by (simp add: code_at_def read_bytes_def)
  also have "\<dots> \<longleftrightarrow> (\<forall>i < length bs. m (p + int i) = bs ! i)"
    by (subst list_eq_iff_nth_eq) simp
  finally show ?thesis .
qed

lemma code_at_write_bytes: "code_at (write_bytes bs p m) p bs"
  unfolding code_at_iff by (simp add: write_bytes_inside)

lemma code_at_write_bytes_after:
  "code_at m p bs \<Longrightarrow> p + int (length bs) \<le> q \<Longrightarrow> code_at (write_bytes cs q m) p bs"
  unfolding code_at_iff by (simp add: write_bytes_outside)

lemma code_at_append:
  assumes a: "code_at m p as" and b: "code_at m (p + int (length as)) bs"
  shows "code_at m p (as @ bs)"
  unfolding code_at_iff
proof (intro allI impI)
  fix i assume i: "i < length (as @ bs)"
  show "m (p + int i) = (as @ bs) ! i"
  proof (cases "i < length as")
    case True
    from a True have "m (p + int i) = as ! i" unfolding code_at_iff by blast
    with True show ?thesis by (simp only: nth_append if_True)
  next
    case False
    then have j: "i - length as < length bs" using i by simp
    have e: "p + int (length as) + int (i - length as) = p + int i" using False by linarith
    from b j have "m (p + int (length as) + int (i - length as)) = bs ! (i - length as)"
      unfolding code_at_iff by blast
    then have "m (p + int i) = bs ! (i - length as)" by (simp only: e)
    with False show ?thesis by (simp only: nth_append if_False)
  qed
qed

subsection \<open>The emitter\<close>

lemma code_ptr_Write_bytes: "code_ptr (Write_bytes bs e) = code_ptr e + int (length bs)"
  by (simp add: Write_bytes_def)

lemma mem_Write_bytes: "mem (Write_bytes bs e) = write_bytes bs (code_ptr e) (mem e)"
  by (simp add: Write_bytes_def)

lemma code_ptr_emit: "code_ptr e \<le> code_ptr (emit P i e)"
  by (simp add: emit_def Write_bytes_def)

lemma code_ptr_emit_eq:
  "code_ptr (emit P i e) = code_ptr e + int (length (enc P i (code_ptr e)))"
  by (simp add: emit_def code_ptr_Write_bytes)

lemma code_ptr_ReserveCodeSpace: "code_ptr (ReserveCodeSpace P n e) = code_ptr e + int (nat n)"
  by (simp add: ReserveCodeSpace_def Write_bytes_def)

lemma code_at_emit: "code_at (mem (emit P i e)) (code_ptr e) (enc P i (code_ptr e))"
  by (simp add: emit_def mem_Write_bytes code_at_write_bytes)

lemma code_at_emit_after:
  "code_at (mem e) p bs \<Longrightarrow> p + int (length bs) \<le> code_ptr e
     \<Longrightarrow> code_at (mem (emit P i e)) p bs"
  by (simp add: emit_def mem_Write_bytes code_at_write_bytes_after)

lemma code_at_ReserveCodeSpace:
  "code_at (mem (ReserveCodeSpace P n e)) (code_ptr e) (replicate (nat n) (filler P))"
  by (simp add: ReserveCodeSpace_def mem_Write_bytes code_at_write_bytes)

lemma code_at_ReserveCodeSpace_after:
  "code_at (mem e) p bs \<Longrightarrow> p + int (length bs) \<le> code_ptr e
     \<Longrightarrow> code_at (mem (ReserveCodeSpace P n e)) p bs"
  by (simp add: ReserveCodeSpace_def mem_Write_bytes code_at_write_bytes_after)

text \<open>Two instructions emitted one after the other are in memory one after the other.\<close>

lemma code_at_emit_emit:
  "code_at (mem (emit P j (emit P i e))) (code_ptr e)
     (enc P i (code_ptr e) @ enc P j (code_ptr e + int (length (enc P i (code_ptr e)))))"
proof (rule code_at_append)
  show "code_at (mem (emit P j (emit P i e))) (code_ptr e) (enc P i (code_ptr e))"
    by (rule code_at_emit_after [OF code_at_emit]) (simp add: code_ptr_emit_eq)
  have "code_at (mem (emit P j (emit P i e))) (code_ptr (emit P i e))
          (enc P j (code_ptr (emit P i e)))"
    by (rule code_at_emit)
  then show "code_at (mem (emit P j (emit P i e)))
          (code_ptr e + int (length (enc P i (code_ptr e))))
          (enc P j (code_ptr e + int (length (enc P i (code_ptr e)))))"
    by (simp only: code_ptr_emit_eq)
qed

text \<open>Two instructions and the padding behind them, as the patching functions write them.\<close>

lemma temp_emitter_patch:
  fixes e :: XEmitter and P :: platform and i j :: host_op and m :: int
  defines "bs \<equiv> enc P i (code_ptr e) @ enc P j (code_ptr e + int (length (enc P i (code_ptr e))))"
  defines "e2 \<equiv> emit P j (emit P i e)"
  shows "code_at (mem (if code_ptr e2 - code_ptr e < m
                       then ReserveCodeSpace P (m - (code_ptr e2 - code_ptr e)) e2 else e2))
           (code_ptr e) (bs @ replicate (nat (m - int (length bs))) (filler P))"
proof -
  have a: "code_at (mem e2) (code_ptr e) bs"
    unfolding e2_def bs_def by (rule code_at_emit_emit)
  have p: "code_ptr e2 = code_ptr e + int (length bs)"
    by (simp add: e2_def bs_def code_ptr_emit_eq)
  show ?thesis
  proof (cases "code_ptr e2 - code_ptr e < m")
    case True
    let ?n = "m - (code_ptr e2 - code_ptr e)"
    have n: "?n = m - int (length bs)" by (simp add: p)
    have "code_at (mem (ReserveCodeSpace P ?n e2)) (code_ptr e) (bs @ replicate (nat ?n) (filler P))"
    proof (rule code_at_append)
      show "code_at (mem (ReserveCodeSpace P ?n e2)) (code_ptr e) bs"
        by (rule code_at_ReserveCodeSpace_after [OF a]) (simp add: p)
      have "code_at (mem (ReserveCodeSpace P ?n e2)) (code_ptr e2) (replicate (nat ?n) (filler P))"
        by (rule code_at_ReserveCodeSpace)
      then show "code_at (mem (ReserveCodeSpace P ?n e2)) (code_ptr e + int (length bs))
                   (replicate (nat ?n) (filler P))"
        by (simp only: p)
    qed
    with True show ?thesis by (simp only: n if_True)
  next
    case False
    then have "nat (m - int (length bs)) = 0" by (simp add: p)
    with False a show ?thesis by simp
  qed
qed

subsection \<open>What each step leaves alone\<close>

lemma Write_bytes_frame:
  "exits (Write_bytes bs s) = exits s"
  "nativeBlocks (Write_bytes bs s) = nativeBlocks s"
  "jo (Write_bytes bs s) = jo s"
  "blocks (Write_bytes bs s) = blocks s"
  "compilingBlockNum (Write_bytes bs s) = compilingBlockNum s"
  "region_size (Write_bytes bs s) = region_size s"
  "prot (Write_bytes bs s) = prot s"
  "dispatcherPCInSCRATCH1 (Write_bytes bs s) = dispatcherPCInSCRATCH1 s"
  by (simp_all add: Write_bytes_def)

lemma emit_frame:
  "exits (emit P i s) = exits s"
  "nativeBlocks (emit P i s) = nativeBlocks s"
  "jo (emit P i s) = jo s"
  "blocks (emit P i s) = blocks s"
  "compilingBlockNum (emit P i s) = compilingBlockNum s"
  "region_size (emit P i s) = region_size s"
  "prot (emit P i s) = prot s"
  "dispatcherPCInSCRATCH1 (emit P i s) = dispatcherPCInSCRATCH1 s"
  by (simp_all add: emit_def Write_bytes_frame)

lemma ReserveCodeSpace_frame:
  "exits (ReserveCodeSpace P n s) = exits s"
  "nativeBlocks (ReserveCodeSpace P n s) = nativeBlocks s"
  "jo (ReserveCodeSpace P n s) = jo s"
  "blocks (ReserveCodeSpace P n s) = blocks s"
  "compilingBlockNum (ReserveCodeSpace P n s) = compilingBlockNum s"
  "region_size (ReserveCodeSpace P n s) = region_size s"
  "prot (ReserveCodeSpace P n s) = prot s"
  by (simp_all add: ReserveCodeSpace_def Write_bytes_frame)

lemma SetJumpTarget_frame:
  "nativeBlocks (SetJumpTarget P p s) = nativeBlocks s"
  "jo (SetJumpTarget P p s) = jo s"
  "code_ptr (SetJumpTarget P p s) = code_ptr s"
  by (simp_all add: SetJumpTarget_def)

lemma SetBlockCheckedOffset_frame:
  "jo (SetBlockCheckedOffset n off s) = jo s"
  "nativeBlocks (SetBlockCheckedOffset n off s) = (nativeBlocks s)(n \<mapsto> \<lparr>checkedOffset = off\<rparr>)"
  by (simp_all add: SetBlockCheckedOffset_def)

lemma code_ptr_SetBlockCheckedOffset [simp]:
  "code_ptr (SetBlockCheckedOffset n off s) = code_ptr s"
  by (simp add: SetBlockCheckedOffset_def)

lemma AddLinkableExit_frame:
  "nativeBlocks (AddLinkableExit n pc a l s) = nativeBlocks s"
  "jo (AddLinkableExit n pc a l s) = jo s"
  "blocks (AddLinkableExit n pc a l s) = blocks s"
  "compilingBlockNum (AddLinkableExit n pc a l s) = compilingBlockNum s"
  "region_size (AddLinkableExit n pc a l s) = region_size s"
  "code_ptr (AddLinkableExit n pc a l s) = code_ptr s"
  "mem (AddLinkableExit n pc a l s) = mem s"
  by (simp_all add: AddLinkableExit_def)

lemma EraseAllLinks_frame:
  "mem (EraseAllLinks n s) = mem s"
  "code_ptr (EraseAllLinks n s) = code_ptr s"
  "prot (EraseAllLinks n s) = prot s"
  "blocks (EraseAllLinks n s) = blocks s"
  "nativeBlocks (EraseAllLinks n s) = nativeBlocks s"
  "exits (EraseAllLinks n s) = filter (\<lambda>r. \<not> targets s r n) (exits s)"
  by (simp_all add: EraseAllLinks_def)

lemma ProtectMemoryPages_frame:
  "mem (ProtectMemoryPages P p n f s) = mem s"
  "code_ptr (ProtectMemoryPages P p n f s) = code_ptr s"
  "exits (ProtectMemoryPages P p n f s) = exits s"
  "blocks (ProtectMemoryPages P p n f s) = blocks s"
  "nativeBlocks (ProtectMemoryPages P p n f s) = nativeBlocks s"
  "dispatcherPCInSCRATCH1 (ProtectMemoryPages P p n f s) = dispatcherPCInSCRATCH1 s"
  by (simp_all add: ProtectMemoryPages_def)

subsection \<open>Exits\<close>

lemma WriteConstExit_jump_eq:
  "WriteConstExit_jump P pc s =
     (if links s pc
      then emit P (JMP (checkedOffset (the (GetNativeBlock s (blocks s pc))))) s
      else emit P (JMP (dispatcherPCInSCRATCH1 s)) (emit P (MOV_SCRATCH1_Imm32 pc) s))"
  unfolding WriteConstExit_jump_def links_def Let_def by (rule refl)

lemma WriteConstExit_jump_frame:
  "exits (WriteConstExit_jump P pc s) = exits s"
  "nativeBlocks (WriteConstExit_jump P pc s) = nativeBlocks s"
  "jo (WriteConstExit_jump P pc s) = jo s"
  "blocks (WriteConstExit_jump P pc s) = blocks s"
  "compilingBlockNum (WriteConstExit_jump P pc s) = compilingBlockNum s"
  "region_size (WriteConstExit_jump P pc s) = region_size s"
  by (simp_all add: WriteConstExit_jump_eq emit_frame)

lemma WriteConstExit_jump_code:
  "code_at (mem (WriteConstExit_jump P pc s)) (code_ptr s) (jump_bytes P pc s)"
proof (cases "links s pc")
  case True
  then show ?thesis
    by (simp add: WriteConstExit_jump_eq jump_bytes_def code_at_emit)
next
  case False
  then show ?thesis
    by (simp add: WriteConstExit_jump_eq jump_bytes_def code_at_emit_emit)
qed

lemma code_ptr_WriteConstExit_jump:
  "code_ptr (WriteConstExit_jump P pc s) = code_ptr s + int (length (jump_bytes P pc s))"
  by (simp add: WriteConstExit_jump_eq jump_bytes_def code_ptr_emit_eq)

text \<open>\<open>WriteConstExit\<close> in one piece: the jump, then the padding and the record.\<close>

lemma WriteConstExit_eq:
  "WriteConstExit P pc s =
     (if enableBlocklink (jo s) then
        (if int (length (jump_bytes P pc s)) < MIN_BLOCK_EXIT_LEN
         then AddLinkableExit (compilingBlockNum s) pc (code_ptr s) MIN_BLOCK_EXIT_LEN
                (ReserveCodeSpace P (MIN_BLOCK_EXIT_LEN - int (length (jump_bytes P pc s)))
                   (WriteConstExit_jump P pc s))
         else AddLinkableExit (compilingBlockNum s) pc (code_ptr s)
                (int (length (jump_bytes P pc s))) (WriteConstExit_jump P pc s))
      else WriteConstExit_jump P pc s)"
  by (simp add: WriteConstExit_def Let_def WriteConstExit_jump_frame code_ptr_WriteConstExit_jump)

lemma WriteConstExit_frame:
  "nativeBlocks (WriteConstExit P pc s) = nativeBlocks s"
  "jo (WriteConstExit P pc s) = jo s"
  "blocks (WriteConstExit P pc s) = blocks s"
  "compilingBlockNum (WriteConstExit P pc s) = compilingBlockNum s"
  "region_size (WriteConstExit P pc s) = region_size s"
  by (simp_all add: WriteConstExit_eq AddLinkableExit_frame ReserveCodeSpace_frame
        WriteConstExit_jump_frame)

lemma code_ptr_WriteConstExit:
  "code_ptr (WriteConstExit P pc s) =
     code_ptr s + (if enableBlocklink (jo s)
                   then max MIN_BLOCK_EXIT_LEN (int (length (jump_bytes P pc s)))
                   else int (length (jump_bytes P pc s)))"
  by (simp add: WriteConstExit_eq AddLinkableExit_frame code_ptr_ReserveCodeSpace
        code_ptr_WriteConstExit_jump)

lemma mem_WriteConstExit:
  "code_at (mem (WriteConstExit P pc s)) (code_ptr s) (jump_bytes P pc s)"
proof -
  have "code_at (mem (ReserveCodeSpace P n (WriteConstExit_jump P pc s))) (code_ptr s)
          (jump_bytes P pc s)" for n
    by (rule code_at_ReserveCodeSpace_after [OF WriteConstExit_jump_code])
       (simp add: code_ptr_WriteConstExit_jump)
  then show ?thesis
    by (simp add: WriteConstExit_eq AddLinkableExit_frame WriteConstExit_jump_code)
qed

text \<open>The patch \<open>OverwriteExit\<close> writes is in memory afterwards.\<close>

lemma OverwriteExit_patch:
  assumes "GetNativeBlock s block_num = Some nb"
  shows "code_at (mem (OverwriteExit P srcOffset len block_num s)) srcOffset
           (enc P (JMP (checkedOffset nb)) srcOffset)"
proof -
  define e :: XEmitter where "e = \<lparr>mem = mem s, code_ptr = srcOffset\<rparr>"
  define e1 where "e1 = emit P (JMP (checkedOffset nb)) e"
  define e2 where "e2 = (if code_ptr e1 - srcOffset < len
                          then ReserveCodeSpace P (len - (code_ptr e1 - srcOffset)) e1 else e1)"
  have c: "code_ptr e = srcOffset" by (simp add: e_def)
  have a: "code_at (mem e1) srcOffset (enc P (JMP (checkedOffset nb)) srcOffset)"
    using code_at_emit [of P "JMP (checkedOffset nb)" e] by (simp add: e1_def c)
  have p: "code_ptr e1 = srcOffset + int (length (enc P (JMP (checkedOffset nb)) srcOffset))"
    by (simp add: e1_def code_ptr_emit_eq c)
  have b: "code_at (mem e2) srcOffset (enc P (JMP (checkedOffset nb)) srcOffset)"
    unfolding e2_def using a p by (simp add: code_at_ReserveCodeSpace_after)
  have "mem (OverwriteExit P srcOffset len block_num s) = mem e2"
    using assms
    by (simp add: OverwriteExit_def Let_def ProtectMemoryPages_frame e2_def e1_def e_def)
  with b show ?thesis by simp
qed

subsection \<open>Invalidation\<close>

lemma mem_InvalidateBlock:
  assumes "originalStart block \<noteq> 0"
  shows "code_at (mem (InvalidateBlock P block n s)) (targetOffset block)
           (entry_patch P block s
            @ replicate (nat (MIN_BLOCK_NORMAL_LEN - int (length (entry_patch P block s))))
                (filler P))"
proof -
  define e :: XEmitter where "e = \<lparr>mem = mem s, code_ptr = targetOffset block\<rparr>"
  define e2 where
    "e2 = emit P (JMP (dispatcherPCInSCRATCH1 s)) (emit P (MOV_SCRATCH1_Imm32 (originalStart block)) e)"
  define e3 where "e3 = (if code_ptr e2 - code_ptr e < MIN_BLOCK_NORMAL_LEN
      then ReserveCodeSpace P (MIN_BLOCK_NORMAL_LEN - (code_ptr e2 - code_ptr e)) e2 else e2)"
  have c: "code_ptr e = targetOffset block" by (simp add: e_def)
  have "code_at (mem e3) (code_ptr e)
          ((enc P (MOV_SCRATCH1_Imm32 (originalStart block)) (code_ptr e)
            @ enc P (JMP (dispatcherPCInSCRATCH1 s))
                (code_ptr e + int (length (enc P (MOV_SCRATCH1_Imm32 (originalStart block)) (code_ptr e)))))
           @ replicate (nat (MIN_BLOCK_NORMAL_LEN - int (length
               (enc P (MOV_SCRATCH1_Imm32 (originalStart block)) (code_ptr e)
            @ enc P (JMP (dispatcherPCInSCRATCH1 s))
                (code_ptr e + int (length (enc P (MOV_SCRATCH1_Imm32 (originalStart block)) (code_ptr e)))))))) (filler P))"
    unfolding e3_def e2_def by (rule temp_emitter_patch)
  then have a: "code_at (mem e3) (targetOffset block)
           (entry_patch P block s
            @ replicate (nat (MIN_BLOCK_NORMAL_LEN - int (length (entry_patch P block s))))
                (filler P))"
    by (simp only: c entry_patch_def)
  have "mem (InvalidateBlock P block n s) = mem e3"
    using assms
    by (simp add: InvalidateBlock_def Let_def EraseAllLinks_frame ProtectMemoryPages_frame
          e3_def e2_def e_def)
  with a show ?thesis by simp
qed

lemma exits_InvalidateBlock:
  "exits (InvalidateBlock P block n s) = filter (\<lambda>r. \<not> targets s r n) (exits s)"
  by (simp add: InvalidateBlock_def Let_def EraseAllLinks_def targets_def
        ProtectMemoryPages_frame)

lemma blocks_InvalidateBlock:
  "blocks (InvalidateBlock P block n s) = blocks s"
  by (simp add: InvalidateBlock_def Let_def EraseAllLinks_frame ProtectMemoryPages_frame)

lemma InvalidateBlock_pc0:
  "originalStart block = 0 \<Longrightarrow> InvalidateBlock P block n s = EraseAllLinks n s"
  by (simp add: InvalidateBlock_def Let_def)

subsection \<open>Compiling a block\<close>

lemma code_ptr_back_jump_guard: "code_ptr s \<le> code_ptr (back_jump_guard P b pc s)"
proof -
  have "code_ptr s \<le> code_ptr (emit P CMP_downcount_Imm32_0 s)" by (rule code_ptr_emit)
  also have "\<dots> \<le> code_ptr (emit P (J_CC_NS b) (emit P CMP_downcount_Imm32_0 s))" by (rule code_ptr_emit)
  also have "\<dots> \<le> code_ptr (emit P (MOV_SCRATCH1_Imm32 pc) (emit P (J_CC_NS b) (emit P CMP_downcount_Imm32_0 s)))" by (rule code_ptr_emit)
  also have "\<dots> \<le> code_ptr (back_jump_guard P b pc s)"
    unfolding back_jump_guard_def Let_def by (rule code_ptr_emit)
  finally show ?thesis .
qed

lemma entry_guard_frame:
  "jo (entry_guard P n pc s) = jo s"
  "nativeBlocks (entry_guard P n pc s) = (nativeBlocks s)(n \<mapsto> \<lparr>checkedOffset = code_ptr s\<rparr>)"
  by (simp_all add: entry_guard_def Let_def SetJumpTarget_frame emit_frame
        SetBlockCheckedOffset_frame)

lemma back_jump_guard_frame:
  "jo (back_jump_guard P b pc s) = jo s"
  "nativeBlocks (back_jump_guard P b pc s) = nativeBlocks s"
  by (simp_all add: back_jump_guard_def Let_def emit_frame)

lemma CompileIRInst_frame:
  "nativeBlocks (CompileIRInst P inst s) = nativeBlocks s"
  "jo (CompileIRInst P inst s) = jo s"
  by (simp_all add: CompileIRInst_def Let_def WriteConstExit_frame Write_bytes_frame
        split: IROp.split)

lemma CompileBlock_loop_frame:
  "nativeBlocks (snd (CompileBlock_loop P insts s)) = nativeBlocks s
   \<and> jo (snd (CompileBlock_loop P insts s)) = jo s"
proof (induction insts arbitrary: s)
  case Nil
  show ?case by simp
next
  case (Cons inst rest)
  define s1 where "s1 = CompileIRInst P inst s"
  define s2 where "s2 = (if disabled_REGALLOC_GPR (jo s1) \<or> disabled_REGALLOC_FPR (jo s1)
                then Write_bytes (genFlushAll P inst (code_ptr s1)) s1 else s1)"
  have a: "nativeBlocks s2 = nativeBlocks s" "jo s2 = jo s"
    by (simp_all add: s2_def s1_def Write_bytes_frame CompileIRInst_frame)
  have e: "CompileBlock_loop P (inst # rest) s =
             (if GetSpaceLeft s2 < 0x800 then (False, s2\<lparr>compilingBlockNum := - 1\<rparr>)
              else CompileBlock_loop P rest s2)"
    unfolding CompileBlock_loop.simps Let_def s2_def s1_def by (rule refl)
  show ?case
  proof (cases "GetSpaceLeft s2 < 0x800")
    case True
    with e a show ?thesis by simp
  next
    case False
    with e a Cons.IH [of s2] show ?thesis by simp
  qed
qed

lemma CompileBlock_loop_fails:
  "CompileBlock_loop P insts s = (False, s') \<Longrightarrow> compilingBlockNum s' = - 1"
proof (induction insts arbitrary: s)
  case Nil
  then show ?case by simp
next
  case (Cons inst rest)
  define s1 where "s1 = CompileIRInst P inst s"
  define s2 where "s2 = (if disabled_REGALLOC_GPR (jo s1) \<or> disabled_REGALLOC_FPR (jo s1)
                then Write_bytes (genFlushAll P inst (code_ptr s1)) s1 else s1)"
  have e: "CompileBlock_loop P (inst # rest) s =
             (if GetSpaceLeft s2 < 0x800 then (False, s2\<lparr>compilingBlockNum := - 1\<rparr>)
              else CompileBlock_loop P rest s2)"
    unfolding CompileBlock_loop.simps Let_def s2_def s1_def by (rule refl)
  show ?case
  proof (cases "GetSpaceLeft s2 < 0x800")
    case True
    with e Cons.prems show ?thesis by auto
  next
    case False
    with e Cons.prems have "CompileBlock_loop P rest s2 = (False, s')" by simp
    then show ?thesis by (rule Cons.IH)
  qed
qed

lemma CompileBlock_finish_min_len:
  "MIN_BLOCK_NORMAL_LEN \<le> code_ptr (CompileBlock_finish P block n w bs pc s) - targetOffset block"
proof -
  define s4 where "s4 = (if DebugStatsEnabled P
                then emit P (JMP (crashHandler s))
                       (emit P ABI_CallFunction_NoBlockExits s)
                else s)"
  define s5 where "s5 = (if code_ptr s4 - targetOffset block < MIN_BLOCK_NORMAL_LEN
                then ReserveCodeSpace P (MIN_BLOCK_NORMAL_LEN - (code_ptr s4 - targetOffset block)) s4 else s4)"
  define s6 where "s6 = (if \<not> w then SetBlockCheckedOffset n (code_ptr s5) s5 else s5)"
  define s7 where "s7 = (if enableBlocklink (jo s6) \<and> useBackJump (jo s6)
                then back_jump_guard P bs pc s6 else s6)"
  have a: "MIN_BLOCK_NORMAL_LEN \<le> code_ptr s5 - targetOffset block"
    by (simp add: s5_def code_ptr_ReserveCodeSpace)
  have b: "code_ptr s6 = code_ptr s5" by (simp add: s6_def)
  have c: "code_ptr s6 \<le> code_ptr s7" by (simp add: s7_def code_ptr_back_jump_guard)
  have "CompileBlock_finish P block n w bs pc s =
          (if logBlocks s7 > 0 then s7\<lparr>logBlocks := logBlocks s7 - 1\<rparr> else s7)
            \<lparr>compilingBlockNum := - 1\<rparr>"
    unfolding CompileBlock_finish_def Let_def s7_def s6_def s5_def s4_def by (rule refl)
  then have d: "code_ptr (CompileBlock_finish P block n w bs pc s) = code_ptr s7"
    by simp
  from a b c d show ?thesis by linarith
qed

text \<open>What \<open>CompileBlock_finish\<close> records and where it leaves the cursor.\<close>

lemma CompileBlock_finish_frame:
  fixes P block n w bs pc s
  defines "s4 \<equiv> (if DebugStatsEnabled P
                then emit P (JMP (crashHandler s)) (emit P ABI_CallFunction_NoBlockExits s)
                else s)"
  defines "pe \<equiv> max (code_ptr s4) (targetOffset block + MIN_BLOCK_NORMAL_LEN)"
  shows "nativeBlocks (CompileBlock_finish P block n w bs pc s) =
           (if w then nativeBlocks s else (nativeBlocks s)(n \<mapsto> \<lparr>checkedOffset = pe\<rparr>))"
    and "compilingBlockNum (CompileBlock_finish P block n w bs pc s) = - 1"
    and "pe \<le> code_ptr (CompileBlock_finish P block n w bs pc s)"
    and "\<not> enableBlocklink (jo s) \<Longrightarrow> code_ptr (CompileBlock_finish P block n w bs pc s) = pe"
proof -
  define s5 where "s5 = (if code_ptr s4 - targetOffset block < MIN_BLOCK_NORMAL_LEN
      then ReserveCodeSpace P (MIN_BLOCK_NORMAL_LEN - (code_ptr s4 - targetOffset block)) s4
      else s4)"
  define s6 where "s6 = (if \<not> w then SetBlockCheckedOffset n (code_ptr s5) s5 else s5)"
  define s7 where "s7 = (if enableBlocklink (jo s6) \<and> useBackJump (jo s6)
                then back_jump_guard P bs pc s6 else s6)"
  have f: "CompileBlock_finish P block n w bs pc s =
          (if logBlocks s7 > 0 then s7\<lparr>logBlocks := logBlocks s7 - 1\<rparr> else s7)
            \<lparr>compilingBlockNum := - 1\<rparr>"
    unfolding CompileBlock_finish_def Let_def s7_def s6_def s5_def s4_def by (rule refl)
  have j4: "jo s4 = jo s" "nativeBlocks s4 = nativeBlocks s"
    by (simp_all add: s4_def emit_frame)
  have c5: "code_ptr s5 = pe"
    by (simp add: s5_def pe_def code_ptr_ReserveCodeSpace max_def)
  have j5: "jo s5 = jo s" "nativeBlocks s5 = nativeBlocks s"
    by (simp_all add: s5_def ReserveCodeSpace_frame j4)
  have j6: "jo s6 = jo s" "code_ptr s6 = pe"
       "nativeBlocks s6 = (if w then nativeBlocks s else (nativeBlocks s)(n \<mapsto> \<lparr>checkedOffset = pe\<rparr>))"
    by (simp_all add: s6_def SetBlockCheckedOffset_frame j5 c5)
  have j7: "nativeBlocks s7 = nativeBlocks s6" "code_ptr s6 \<le> code_ptr s7"
    by (simp_all add: s7_def back_jump_guard_frame code_ptr_back_jump_guard)
  show "nativeBlocks (CompileBlock_finish P block n w bs pc s) =
           (if w then nativeBlocks s else (nativeBlocks s)(n \<mapsto> \<lparr>checkedOffset = pe\<rparr>))"
    by (simp add: f j7 j6)
  show "compilingBlockNum (CompileBlock_finish P block n w bs pc s) = - 1"
    by (simp add: f)
  have "code_ptr (CompileBlock_finish P block n w bs pc s) = code_ptr s7"
    by (simp add: f)
  with j7 j6 show "pe \<le> code_ptr (CompileBlock_finish P block n w bs pc s)" by simp
  show "code_ptr (CompileBlock_finish P block n w bs pc s) = pe" if "\<not> enableBlocklink (jo s)"
    using that by (simp add: f s7_def j6)
qed

text \<open>The three ways \<open>CompileBlock\<close> can go.\<close>

lemma CompileBlock_cases:
  fixes P block block_num preload s
  defines "s1 \<equiv> (if forward_check s then entry_guard P block_num (originalStart block) s else s)"
  defines "block1 \<equiv> block\<lparr>targetOffset := code_ptr s1\<rparr>"
  defines "r \<equiv> CompileBlock_loop P (instructions block) (s1\<lparr>compilingBlockNum := block_num\<rparr>)"
  shows "CompileBlock P block block_num preload s =
     (if GetSpaceLeft s < 0x800 then (False, block, s)
      else if fst r
      then (True, block1,
            CompileBlock_finish P block1 block_num (forward_check s) (code_ptr s1)
              (originalStart block) (snd r))
      else (False, block1, snd r))"
proof -
  have "CompileBlock P block block_num preload s =
     (if GetSpaceLeft s < 0x800 then (False, block, s)
      else case r of
        (False, s3) \<Rightarrow> (False, block1, s3)
      | (True, s3) \<Rightarrow> (True, block1,
            CompileBlock_finish P block1 block_num (forward_check s) (code_ptr s1)
              (originalStart block) s3))"
    unfolding CompileBlock_def Let_def r_def block1_def s1_def forward_check_def
    by simp
  then show ?thesis by (simp split: prod.split bool.split)
qed

subsection \<open>Runs of the concrete backend\<close>

lemma block0_compiles: "fst (CompileBlock x64 block0 7 False backend0)"
  by (simp add: model_defs Let_def)

lemma block0_compiles_unlinked: "fst (CompileBlock x64 block0 7 False backend5)"
  by (simp add: model_defs Let_def)

lemma padded_body_end_block0: "padded_body_end x64 block0 7 backend5 = 0x112"
  by (simp add: model_defs Let_def)

lemma entry_guard_block0: "code_ptr (entry_guard x64 7 (originalStart block0) backend0) = 0x110"
  by (simp add: model_defs Let_def)

lemma block0_fails: "\<not> fst (CompileBlock x64 block0 7 False backend4)"
  by (simp add: model_defs Let_def)

lemma entry_guard_backend4: "code_ptr (entry_guard x64 7 (originalStart block0) backend4) = 0xFFF800"
  by (simp add: model_defs Let_def)

section \<open>Claims\<close>

text \<open>
  C1 fails on the code. Block 3 of \<open>backend2\<close> has metadata whose \<open>checkedOffset\<close> is
  zero, so there is no checked entry to jump to, and the patch site is untouched before
  the call. \<open>OverwriteExit\<close> only tests that the metadata exists: it writes a jump to
  offset 0 over the patch site and the backend is not as it was. At the same state
  \<open>WriteConstExit\<close>, whose condition includes \<open>checkedOffset != 0\<close>, does not link to
  block 3 and emits the exit through the dispatcher.
\<close>

theorem OverwriteExit_zero_checkedOffset_writes:
  "GetNativeBlock backend2 3 = Some \<lparr>checkedOffset = 0\<rparr>
   \<and> mem backend2 0x118 = 0
   \<and> mem (OverwriteExit x64 0x118 16 3 backend2) 0x118 = 0xE9
   \<and> code_at (mem (OverwriteExit x64 0x118 16 3 backend2)) 0x118 [0xE9, 0xE3, 0xFE, 0xFF, 0xFF]
   \<and> OverwriteExit x64 0x118 16 3 backend2 \<noteq> backend2
   \<and> blocks backend2 0x8804100 = 3
   \<and> code_at (mem (WriteConstExit x64 0x8804100 backend2)) 0x100
        [0xB8, 0x00, 0x41, 0x80, 0x08, 0xE9, 0x16, 0xFF, 0xFF, 0xFF]"
proof -
  have a: "GetNativeBlock backend2 3 = Some \<lparr>checkedOffset = 0\<rparr>"
    by (simp add: GetNativeBlock_def backend2_def backend1_def backend0_def)
  have b: "mem backend2 0x118 = 0"
    by (simp add: backend2_def backend1_def backend0_def)
  have c: "mem (OverwriteExit x64 0x118 16 3 backend2) 0x118 = 0xE9"
    by (simp add: model_defs Let_def write_bytes_outside)
  have e: "enc x64 (JMP 0) 0x118 = [0xE9, 0xE3, 0xFE, 0xFF, 0xFF]"
    by (simp add: x64_def le32_def)
  have d: "code_at (mem (OverwriteExit x64 0x118 16 3 backend2)) 0x118
             [0xE9, 0xE3, 0xFE, 0xFF, 0xFF]"
    using OverwriteExit_patch [OF a, of x64 "0x118" 16] by (simp add: e)
  from b c have "mem (OverwriteExit x64 0x118 16 3 backend2) \<noteq> mem backend2"
    by auto
  then have f: "OverwriteExit x64 0x118 16 3 backend2 \<noteq> backend2" by auto
  have g: "blocks backend2 0x8804100 = 3"
    by (simp add: backend2_def backend1_def backend0_def)
  have p: "code_ptr backend2 = 0x100"
    by (simp add: backend2_def backend1_def backend0_def)
  have l: "\<not> links backend2 0x8804100"
    by (simp add: links_def g a)
  have q: "dispatcherPCInSCRATCH1 backend2 = 0x20"
    by (simp add: backend2_def backend1_def backend0_def)
  have "jump_bytes x64 0x8804100 backend2
          = enc x64 (MOV_SCRATCH1_Imm32 0x8804100) (code_ptr backend2)
            @ enc x64 (JMP (dispatcherPCInSCRATCH1 backend2))
                (code_ptr backend2
                 + int (length (enc x64 (MOV_SCRATCH1_Imm32 0x8804100) (code_ptr backend2))))"
    by (simp only: jump_bytes_def l if_False)
  then have j: "jump_bytes x64 0x8804100 backend2
             = [0xB8, 0x00, 0x41, 0x80, 0x08, 0xE9, 0x16, 0xFF, 0xFF, 0xFF]"
    by (simp add: p q x64_def le32_def)
  have h: "code_at (mem (WriteConstExit x64 0x8804100 backend2)) 0x100
        [0xB8, 0x00, 0x41, 0x80, 0x08, 0xE9, 0x16, 0xFF, 0xFF, 0xFF]"
    using mem_WriteConstExit [of x64 "0x8804100" backend2] by (simp only: j p)
  from a b c d f g h show ?thesis by blast
qed

text \<open>
  C2 (as amended). When \<open>CompileBlock\<close> returns failure, either the first space check
  failed and block and backend are as they were, or the space ran out inside the
  loop: then the marker is cleared, but the block's \<open>targetOffset\<close> has been set to
  the start of the body, and in the forward-check style the block's \<open>checkedOffset\<close>
  has been set to the offset of the guard (in the other configurations it is as it
  was before the call).
\<close>

theorem CompileBlock_failure:
  assumes "CompileBlock P block block_num preload s = (False, block', s')"
  shows "(GetSpaceLeft s < 0x800 \<and> block' = block \<and> s' = s)
       \<or> (\<not> GetSpaceLeft s < 0x800
          \<and> compilingBlockNum s' = - 1
          \<and> targetOffset block' =
              (if forward_check s then code_ptr (entry_guard P block_num (originalStart block) s)
               else code_ptr s)
          \<and> GetNativeBlock s' block_num =
              (if forward_check s then Some \<lparr>checkedOffset = code_ptr s\<rparr>
               else GetNativeBlock s block_num))"
proof (cases "GetSpaceLeft s < 0x800")
  case True
  with assms show ?thesis by (simp add: CompileBlock_cases)
next
  case False
  define s1 where "s1 = (if forward_check s then entry_guard P block_num (originalStart block) s else s)"
  define r where "r = CompileBlock_loop P (instructions block) (s1\<lparr>compilingBlockNum := block_num\<rparr>)"
  from assms False have nok: "\<not> fst r" and b: "block' = block\<lparr>targetOffset := code_ptr s1\<rparr>"
    and s': "s' = snd r"
    unfolding CompileBlock_cases r_def s1_def
    by (simp_all split: if_splits)
  from nok s' have "r = (False, s')" by (simp add: prod_eq_iff)
  then have m: "compilingBlockNum s' = - 1"
    unfolding r_def by (rule CompileBlock_loop_fails)
  have n: "nativeBlocks s' = nativeBlocks s1"
    using CompileBlock_loop_frame [of P "instructions block" "s1\<lparr>compilingBlockNum := block_num\<rparr>"]
    by (simp add: s' r_def)
  have t: "targetOffset block' =
              (if forward_check s then code_ptr (entry_guard P block_num (originalStart block) s)
               else code_ptr s)"
    by (simp add: b s1_def)
  have g: "GetNativeBlock s' block_num =
              (if forward_check s then Some \<lparr>checkedOffset = code_ptr s\<rparr>
               else GetNativeBlock s block_num)"
    by (simp add: GetNativeBlock_def n s1_def entry_guard_frame)
  from False m t g show ?thesis by simp
qed

theorem CompileBlock_failure_witness:
  "\<not> fst (CompileBlock x64 block0 7 False backend4)
   \<and> \<not> GetSpaceLeft backend4 < 0x800
   \<and> compilingBlockNum (snd (snd (CompileBlock x64 block0 7 False backend4))) = - 1
   \<and> targetOffset (fst (snd (CompileBlock x64 block0 7 False backend4))) = 0xFFF800
   \<and> GetNativeBlock (snd (snd (CompileBlock x64 block0 7 False backend4))) 7
       = Some \<lparr>checkedOffset = 0xFFF7F0\<rparr>
   \<and> \<not> fst (CompileBlock x64 block0 7 False (backend0\<lparr>code_ptr := 0xFFFA00\<rparr>))
   \<and> GetSpaceLeft (backend0\<lparr>code_ptr := 0xFFFA00\<rparr>) < 0x800
   \<and> fst (snd (CompileBlock x64 block0 7 False (backend0\<lparr>code_ptr := 0xFFFA00\<rparr>))) = block0
   \<and> snd (snd (CompileBlock x64 block0 7 False (backend0\<lparr>code_ptr := 0xFFFA00\<rparr>)))
       = backend0\<lparr>code_ptr := 0xFFFA00\<rparr>"
proof -
  let ?s = "backend0\<lparr>code_ptr := 0xFFFA00\<rparr>"
  have k: "GetSpaceLeft ?s < 0x800" by (simp add: GetSpaceLeft_def backend0_def)
  then have nf: "\<not> fst (CompileBlock x64 block0 7 False ?s)"
    by (simp add: CompileBlock_cases)
  then have h': "CompileBlock x64 block0 7 False ?s =
             (False, fst (snd (CompileBlock x64 block0 7 False ?s)),
              snd (snd (CompileBlock x64 block0 7 False ?s)))"
    by (simp add: prod_eq_iff)
  from CompileBlock_failure [OF h'] k
  have first: "fst (snd (CompileBlock x64 block0 7 False ?s)) = block0"
    "snd (snd (CompileBlock x64 block0 7 False ?s)) = ?s"
    by simp_all
  have h: "CompileBlock x64 block0 7 False backend4 =
             (False, fst (snd (CompileBlock x64 block0 7 False backend4)),
              snd (snd (CompileBlock x64 block0 7 False backend4)))"
    using block0_fails by (simp add: prod_eq_iff)
  have g: "\<not> GetSpaceLeft backend4 < 0x800" "forward_check backend4"
    "code_ptr backend4 = 0xFFF7F0"
    by (simp_all add: GetSpaceLeft_def forward_check_def backend4_def backend0_def)
  from CompileBlock_failure [OF h] g block0_fails
  have second: "compilingBlockNum (snd (snd (CompileBlock x64 block0 7 False backend4))) = - 1"
    "targetOffset (fst (snd (CompileBlock x64 block0 7 False backend4))) = 0xFFF800"
    "GetNativeBlock (snd (snd (CompileBlock x64 block0 7 False backend4))) 7
       = Some \<lparr>checkedOffset = 0xFFF7F0\<rparr>"
    by (simp_all add: entry_guard_backend4)
  from block0_fails g(1) second nf k first show ?thesis by blast
qed

text \<open>
  C2 as stated fails: with sixteen bytes more than the threshold left, the guard and
  the first instruction of \<open>block0\<close> use them up, \<open>CompileBlock\<close> returns failure,
  and both \<open>targetOffset\<close> and \<open>checkedOffset\<close> of the block have been set.
\<close>

theorem CompileBlock_failure_counterexample:
  "\<not> fst (CompileBlock x64 block0 7 False backend4)
   \<and> targetOffset block0 = 0
   \<and> targetOffset (fst (snd (CompileBlock x64 block0 7 False backend4))) = 0xFFF800
   \<and> GetNativeBlock backend4 7 = None
   \<and> GetNativeBlock (snd (snd (CompileBlock x64 block0 7 False backend4))) 7
       = Some \<lparr>checkedOffset = 0xFFF7F0\<rparr>"
  by (simp add: model_defs Let_def)

text \<open>
  C3 fails on the code. The patch site of 32 bytes at \<open>0xFF0\<close> lies on pages 0
  and 1. Both are made writable; the restore covers 16 bytes, that is page 0 only, and
  page 1 is left writable when \<open>OverwriteExit\<close> returns.
\<close>

theorem OverwriteExit_leaves_page_writable:
  "GetNativeBlock backend1 3 = Some \<lparr>checkedOffset = 0x400\<rparr>
   \<and> MIN_BLOCK_EXIT_LEN \<le> 32
   \<and> prot backend1 1 = MEM_PROT_READ_EXEC
   \<and> prot (OverwriteExit x64 0xFF0 32 3 backend1) 0 = MEM_PROT_READ_EXEC
   \<and> prot (OverwriteExit x64 0xFF0 32 3 backend1) 1 = MEM_PROT_READ_WRITE"
  by (simp add: model_defs backend1_def Let_def)

text \<open>
  C4. After a successful \<open>CompileBlock\<close> the cursor is at least
  \<open>MIN_BLOCK_NORMAL_LEN\<close> bytes past the block's recorded \<open>targetOffset\<close>.
\<close>

theorem CompileBlock_min_len:
  assumes "CompileBlock P block block_num preload s = (True, block', s')"
  shows "MIN_BLOCK_NORMAL_LEN \<le> code_ptr s' - targetOffset block'"
proof -
  from assms obtain b1 w bs pc s3 where
    "block' = b1" "s' = CompileBlock_finish P b1 block_num w bs pc s3"
    by (auto simp add: CompileBlock_def Let_def split: if_splits prod.splits bool.splits)
  then show ?thesis by (simp add: CompileBlock_finish_min_len)
qed

theorem CompileBlock_min_len_witness:
  "fst (CompileBlock x64 block0 7 False backend0) \<and>
   MIN_BLOCK_NORMAL_LEN
     \<le> code_ptr (snd (snd (CompileBlock x64 block0 7 False backend0)))
       - targetOffset (fst (snd (CompileBlock x64 block0 7 False backend0)))"
proof -
  have h: "CompileBlock x64 block0 7 False backend0 =
             (True, fst (snd (CompileBlock x64 block0 7 False backend0)),
              snd (snd (CompileBlock x64 block0 7 False backend0)))"
    using block0_compiles by (simp add: prod_eq_iff)
  from CompileBlock_min_len [OF h] block0_compiles show ?thesis by simp
qed

text \<open>
  C5. With linking enabled, \<open>WriteConstExit\<close> adds exactly one exit-site record, for
  the block being compiled and the exit's start offset; its length is the distance the
  cursor has moved, padding included, and is at least \<open>MIN_BLOCK_EXIT_LEN\<close>.
\<close>

theorem WriteConstExit_exit_len:
  assumes "enableBlocklink (jo s)"
  shows "exits (WriteConstExit P pc s) =
           exits s @ [\<lparr>exit_block = compilingBlockNum s, exit_dest = pc,
                        exit_offset = code_ptr s,
                        exit_len = code_ptr (WriteConstExit P pc s) - code_ptr s\<rparr>]
         \<and> MIN_BLOCK_EXIT_LEN \<le> code_ptr (WriteConstExit P pc s) - code_ptr s"
  using assms
  by (simp add: code_ptr_WriteConstExit)
     (simp add: WriteConstExit_eq AddLinkableExit_def ReserveCodeSpace_frame
        WriteConstExit_jump_frame max_def)

theorem WriteConstExit_exit_len_witness:
  "enableBlocklink (jo backend1) \<and>
   exits (WriteConstExit x64 0x8804100 backend1) =
     [\<lparr>exit_block = 7, exit_dest = 0x8804100, exit_offset = 0x100, exit_len = 16\<rparr>]
   \<and> MIN_BLOCK_EXIT_LEN \<le> code_ptr (WriteConstExit x64 0x8804100 backend1) - code_ptr backend1"
proof -
  have h: "enableBlocklink (jo backend1)" by (simp add: backend1_def backend0_def)
  have c: "code_ptr (WriteConstExit x64 0x8804100 backend1) = 0x110"
    by (simp add: model_defs Let_def)
  have e: "exits backend1 = []" "compilingBlockNum backend1 = 7" "code_ptr backend1 = 0x100"
    by (simp_all add: backend1_def backend0_def)
  from WriteConstExit_exit_len [OF h, of x64 "0x8804100"] h show ?thesis
    by (simp add: c e)
qed

text \<open>
  C6. After \<open>InvalidateBlock\<close> on a block whose guest PC is not 0, no exit-site record
  that is left targets the block id, and the memory at the block's \<open>targetOffset\<close>
  holds the entry patch (load the guest PC into the scratch register, jump to the
  dispatcher entry) followed by padding up to \<open>MIN_BLOCK_NORMAL_LEN\<close> bytes. For a
  block whose guest PC is 0 the memory is not written.
\<close>

theorem InvalidateBlock_effect:
  "(originalStart block \<noteq> 0 \<longrightarrow>
      (\<forall>r \<in> set (exits (InvalidateBlock P block block_num s)).
          \<not> targets (InvalidateBlock P block block_num s) r block_num)
      \<and> code_at (mem (InvalidateBlock P block block_num s)) (targetOffset block)
           (entry_patch P block s
            @ replicate (nat (MIN_BLOCK_NORMAL_LEN - int (length (entry_patch P block s))))
                (filler P)))
   \<and> (originalStart block = 0 \<longrightarrow> mem (InvalidateBlock P block block_num s) = mem s)"
proof (intro conjI impI ballI)
  fix r
  assume "r \<in> set (exits (InvalidateBlock P block block_num s))"
  then have "\<not> targets s r block_num" by (simp add: exits_InvalidateBlock)
  then show "\<not> targets (InvalidateBlock P block block_num s) r block_num"
    by (simp add: targets_def blocks_InvalidateBlock)
next
  assume "originalStart block \<noteq> 0"
  then show "code_at (mem (InvalidateBlock P block block_num s)) (targetOffset block)
           (entry_patch P block s
            @ replicate (nat (MIN_BLOCK_NORMAL_LEN - int (length (entry_patch P block s))))
                (filler P))"
    by (rule mem_InvalidateBlock)
next
  assume "originalStart block = 0"
  then show "mem (InvalidateBlock P block block_num s) = mem s"
    by (simp add: InvalidateBlock_pc0 EraseAllLinks_frame)
qed

theorem InvalidateBlock_effect_witness:
  "originalStart block3 \<noteq> 0
   \<and> exits (InvalidateBlock x64 block3 3 backend3)
       = [\<lparr>exit_block = 7, exit_dest = 0x8804200, exit_offset = 0x130, exit_len = 16\<rparr>]
   \<and> \<not> targets (InvalidateBlock x64 block3 3 backend3)
         \<lparr>exit_block = 7, exit_dest = 0x8804200, exit_offset = 0x130, exit_len = 16\<rparr> 3
   \<and> code_at (mem (InvalidateBlock x64 block3 3 backend3)) 0x410
        [0xB8, 0x00, 0x41, 0x80, 0x08, 0xE9, 0x06, 0xFC, 0xFF, 0xFF,
         0xCC, 0xCC, 0xCC, 0xCC, 0xCC, 0xCC]
   \<and> originalStart (block3\<lparr>originalStart := 0\<rparr>) = 0
   \<and> mem (InvalidateBlock x64 (block3\<lparr>originalStart := 0\<rparr>) 3 backend3) = mem backend3"
proof -
  have h: "originalStart block3 \<noteq> 0" by (simp add: block3_def)
  have h0: "originalStart (block3\<lparr>originalStart := 0\<rparr>) = 0" by simp
  have x: "exits (InvalidateBlock x64 block3 3 backend3)
       = [\<lparr>exit_block = 7, exit_dest = 0x8804200, exit_offset = 0x130, exit_len = 16\<rparr>]"
    by (simp add: model_defs Let_def)
  have p: "entry_patch x64 block3 backend3
            @ replicate (nat (MIN_BLOCK_NORMAL_LEN - int (length (entry_patch x64 block3 backend3))))
                (filler x64)
           = [0xB8, 0x00, 0x41, 0x80, 0x08, 0xE9, 0x06, 0xFC, 0xFF, 0xFF,
              0xCC, 0xCC, 0xCC, 0xCC, 0xCC, 0xCC]"
  proof -
    have ep: "entry_patch x64 block3 backend3
                = [0xB8, 0x00, 0x41, 0x80, 0x08, 0xE9, 0x06, 0xFC, 0xFF, 0xFF]"
      by (simp add: entry_patch_def x64_def le32_def block3_def backend3_def backend1_def
            backend0_def)
    have r: "replicate (nat (MIN_BLOCK_NORMAL_LEN - 10)) (filler x64)
               = [0xCC, 0xCC, 0xCC, 0xCC, 0xCC, 0xCC]"
      by (simp add: MIN_BLOCK_NORMAL_LEN_def x64_def numeral_eq_Suc)
    show ?thesis by (simp add: ep r)
  qed
  have t: "targetOffset block3 = 0x410" by (simp add: block3_def)
  note T = InvalidateBlock_effect [of block3 x64 3 backend3]
  note T0 = InvalidateBlock_effect [of "block3\<lparr>originalStart := 0\<rparr>" x64 3 backend3]
  from T h x have a: "\<not> targets (InvalidateBlock x64 block3 3 backend3)
         \<lparr>exit_block = 7, exit_dest = 0x8804200, exit_offset = 0x130, exit_len = 16\<rparr> 3"
    by simp
  from T h have b: "code_at (mem (InvalidateBlock x64 block3 3 backend3)) 0x410
        [0xB8, 0x00, 0x41, 0x80, 0x08, 0xE9, 0x06, 0xFC, 0xFF, 0xFF,
         0xCC, 0xCC, 0xCC, 0xCC, 0xCC, 0xCC]"
    by (simp only: p t) simp
  from T0 h0 have c: "mem (InvalidateBlock x64 (block3\<lparr>originalStart := 0\<rparr>) 3 backend3) = mem backend3"
    by blast
  from h x a b h0 c show ?thesis by blast
qed

text \<open>
  C7. The code \<open>WriteConstExit\<close> leaves at the exit's start is a jump to the target's
  checked offset when the target PC maps to a block (id not negative) that has
  metadata with a non-zero \<open>checkedOffset\<close> and linking is enabled; in every other
  case it is the load of the target PC into the scratch register followed by a jump
  to the dispatcher entry.
\<close>

theorem WriteConstExit_code:
  "(\<forall>nb. blocks s pc \<ge> 0 \<and> GetNativeBlock s (blocks s pc) = Some nb
         \<and> checkedOffset nb \<noteq> 0 \<and> enableBlocklink (jo s)
      \<longrightarrow> code_at (mem (WriteConstExit P pc s)) (code_ptr s)
            (enc P (JMP (checkedOffset nb)) (code_ptr s)))
   \<and> (blocks s pc < 0 \<or> GetNativeBlock s (blocks s pc) = None
       \<or> (\<exists>nb. GetNativeBlock s (blocks s pc) = Some nb \<and> checkedOffset nb = 0)
       \<or> \<not> enableBlocklink (jo s)
      \<longrightarrow> code_at (mem (WriteConstExit P pc s)) (code_ptr s)
            (enc P (MOV_SCRATCH1_Imm32 pc) (code_ptr s)
             @ enc P (JMP (dispatcherPCInSCRATCH1 s))
                 (code_ptr s + int (length (enc P (MOV_SCRATCH1_Imm32 pc) (code_ptr s))))))"
proof (intro conjI allI impI)
  fix nb
  assume "blocks s pc \<ge> 0 \<and> GetNativeBlock s (blocks s pc) = Some nb
         \<and> checkedOffset nb \<noteq> 0 \<and> enableBlocklink (jo s)"
  then have "jump_bytes P pc s = enc P (JMP (checkedOffset nb)) (code_ptr s)"
    by (simp add: jump_bytes_def links_def)
  with mem_WriteConstExit [of P pc s]
  show "code_at (mem (WriteConstExit P pc s)) (code_ptr s)
            (enc P (JMP (checkedOffset nb)) (code_ptr s))"
    by simp
next
  assume "blocks s pc < 0 \<or> GetNativeBlock s (blocks s pc) = None
       \<or> (\<exists>nb. GetNativeBlock s (blocks s pc) = Some nb \<and> checkedOffset nb = 0)
       \<or> \<not> enableBlocklink (jo s)"
  then have "\<not> links s pc"
    by (auto simp add: links_def)
  then have "jump_bytes P pc s = enc P (MOV_SCRATCH1_Imm32 pc) (code_ptr s)
             @ enc P (JMP (dispatcherPCInSCRATCH1 s))
                 (code_ptr s + int (length (enc P (MOV_SCRATCH1_Imm32 pc) (code_ptr s))))"
    by (simp add: jump_bytes_def)
  with mem_WriteConstExit [of P pc s]
  show "code_at (mem (WriteConstExit P pc s)) (code_ptr s)
            (enc P (MOV_SCRATCH1_Imm32 pc) (code_ptr s)
             @ enc P (JMP (dispatcherPCInSCRATCH1 s))
                 (code_ptr s + int (length (enc P (MOV_SCRATCH1_Imm32 pc) (code_ptr s)))))"
    by simp
qed

theorem WriteConstExit_code_witness:
  "(blocks backend1 0x8804100 \<ge> 0
     \<and> GetNativeBlock backend1 (blocks backend1 0x8804100) = Some \<lparr>checkedOffset = 0x400\<rparr>
     \<and> checkedOffset \<lparr>checkedOffset = 0x400\<rparr> \<noteq> 0 \<and> enableBlocklink (jo backend1))
   \<and> code_at (mem (WriteConstExit x64 0x8804100 backend1)) 0x100 [0xE9, 0xFB, 0x02, 0x00, 0x00]
   \<and> GetNativeBlock backend0 (blocks backend0 0x8804100) = None
   \<and> code_at (mem (WriteConstExit x64 0x8804100 backend0)) 0x100
        [0xB8, 0x00, 0x41, 0x80, 0x08, 0xE9, 0x16, 0xFF, 0xFF, 0xFF]"
proof -
  have h1: "blocks backend1 0x8804100 \<ge> 0
     \<and> GetNativeBlock backend1 (blocks backend1 0x8804100) = Some \<lparr>checkedOffset = 0x400\<rparr>
     \<and> checkedOffset \<lparr>checkedOffset = 0x400\<rparr> \<noteq> 0 \<and> enableBlocklink (jo backend1)"
    by (simp add: backend1_def backend0_def GetNativeBlock_def)
  have h0: "GetNativeBlock backend0 (blocks backend0 0x8804100) = None"
    by (simp add: backend0_def GetNativeBlock_def)
  have e1: "enc x64 (JMP 0x400) (code_ptr backend1) = [0xE9, 0xFB, 0x02, 0x00, 0x00]"
    by (simp add: x64_def backend1_def backend0_def le32_def)
  have e0: "enc x64 (MOV_SCRATCH1_Imm32 0x8804100) (code_ptr backend0)
             @ enc x64 (JMP (dispatcherPCInSCRATCH1 backend0))
                 (code_ptr backend0 + int (length (enc x64 (MOV_SCRATCH1_Imm32 0x8804100) (code_ptr backend0))))
            = [0xB8, 0x00, 0x41, 0x80, 0x08, 0xE9, 0x16, 0xFF, 0xFF, 0xFF]"
    by (simp add: x64_def backend0_def le32_def)
  have c: "code_ptr backend1 = 0x100" "code_ptr backend0 = 0x100"
    by (simp_all add: backend1_def backend0_def)
  from WriteConstExit_code [of backend1 "0x8804100" x64] h1
  have a: "code_at (mem (WriteConstExit x64 0x8804100 backend1)) 0x100 [0xE9, 0xFB, 0x02, 0x00, 0x00]"
    using e1 c by auto
  from WriteConstExit_code [of backend0 "0x8804100" x64] h0
  have b: "code_at (mem (WriteConstExit x64 0x8804100 backend0)) 0x100
        [0xB8, 0x00, 0x41, 0x80, 0x08, 0xE9, 0x16, 0xFF, 0xFF, 0xFF]"
    using e0 c by auto
  from h1 a h0 b show ?thesis by blast
qed

text \<open>
  C8. With less free space than the threshold \<open>0x800\<close>, \<open>CompileBlock\<close> fails on its
  first space check: it returns failure, the block is as it was and the backend is as
  it was, so nothing was emitted, no guard was written and the cursor has not moved.
\<close>

theorem CompileBlock_no_space:
  "GetSpaceLeft s < 0x800 \<Longrightarrow> CompileBlock P block block_num preload s = (False, block, s)"
  by (simp add: CompileBlock_def)

theorem CompileBlock_no_space_witness:
  "GetSpaceLeft (backend0\<lparr>code_ptr := 0xFFFA00\<rparr>) < 0x800 \<and>
   CompileBlock x64 \<lparr>originalStart = 0x8804000, targetOffset = 0, instructions = []\<rparr> 7 False
     (backend0\<lparr>code_ptr := 0xFFFA00\<rparr>)
   = (False, \<lparr>originalStart = 0x8804000, targetOffset = 0, instructions = []\<rparr>,
      backend0\<lparr>code_ptr := 0xFFFA00\<rparr>)"
proof -
  have h: "GetSpaceLeft (backend0\<lparr>code_ptr := 0xFFFA00\<rparr>) < 0x800"
    by (simp add: GetSpaceLeft_def backend0_def)
  from CompileBlock_no_space [OF h] h show ?thesis by simp
qed

text \<open>
  C9. After a successful \<open>CompileBlock\<close> the block's \<open>checkedOffset\<close> is recorded in
  every configuration. In the forward-check style it is the cursor at the call, where
  the guard starts, and the body starts where the guard ends. In every other
  configuration it is the offset reached after the padded body, at least
  \<open>MIN_BLOCK_NORMAL_LEN\<close> past the body's start; with linking disabled nothing
  follows it. Compiling at a cursor above 0 never leaves the recorded offset at 0.
\<close>

theorem CompileBlock_checkedOffset:
  assumes "CompileBlock P block block_num preload s = (True, block', s')"
  shows "(forward_check s \<longrightarrow>
            GetNativeBlock s' block_num = Some \<lparr>checkedOffset = code_ptr s\<rparr>
            \<and> targetOffset block' = code_ptr (entry_guard P block_num (originalStart block) s))
       \<and> (\<not> forward_check s \<longrightarrow>
            GetNativeBlock s' block_num
              = Some \<lparr>checkedOffset = padded_body_end P block block_num s\<rparr>
            \<and> targetOffset block' = code_ptr s
            \<and> targetOffset block' + MIN_BLOCK_NORMAL_LEN \<le> padded_body_end P block block_num s
            \<and> padded_body_end P block block_num s \<le> code_ptr s'
            \<and> (\<not> enableBlocklink (jo s) \<longrightarrow> code_ptr s' = padded_body_end P block block_num s))
       \<and> (0 < code_ptr s \<longrightarrow>
            (\<exists>nb. GetNativeBlock s' block_num = Some nb \<and> checkedOffset nb \<noteq> 0))"
proof -
  define s1 where "s1 = (if forward_check s then entry_guard P block_num (originalStart block) s else s)"
  define block1 where "block1 = block\<lparr>targetOffset := code_ptr s1\<rparr>"
  define r where "r = CompileBlock_loop P (instructions block) (s1\<lparr>compilingBlockNum := block_num\<rparr>)"
  define s3 where "s3 = snd r"
  from assms have ok: "fst r" and b: "block' = block1"
    and s': "s' = CompileBlock_finish P block1 block_num (forward_check s) (code_ptr s1)
              (originalStart block) s3"
    unfolding CompileBlock_cases r_def block1_def s1_def s3_def
    by (simp_all split: if_splits)
  have n3: "nativeBlocks s3 = nativeBlocks s1" and j3: "jo s3 = jo s1"
    using CompileBlock_loop_frame [of P "instructions block" "s1\<lparr>compilingBlockNum := block_num\<rparr>"]
    by (simp_all add: s3_def r_def)
  have j1: "jo s1 = jo s" by (simp add: s1_def entry_guard_frame)
  have fwd: "GetNativeBlock s' block_num = Some \<lparr>checkedOffset = code_ptr s\<rparr>
            \<and> targetOffset block' = code_ptr (entry_guard P block_num (originalStart block) s)"
    if "forward_check s"
    using that
    by (simp add: GetNativeBlock_def s' CompileBlock_finish_frame(1) n3 b block1_def s1_def
          entry_guard_frame)
  have nf: "GetNativeBlock s' block_num
              = Some \<lparr>checkedOffset = padded_body_end P block block_num s\<rparr>
            \<and> targetOffset block' = code_ptr s
            \<and> targetOffset block' + MIN_BLOCK_NORMAL_LEN \<le> padded_body_end P block block_num s
            \<and> padded_body_end P block block_num s \<le> code_ptr s'
            \<and> (\<not> enableBlocklink (jo s) \<longrightarrow> code_ptr s' = padded_body_end P block block_num s)"
    if "\<not> forward_check s"
  proof -
    from that have e1: "s1 = s" by (simp add: s1_def)
    have t: "targetOffset block1 = code_ptr s" by (simp add: block1_def e1)
    have pe: "padded_body_end P block block_num s =
                max (code_ptr (if DebugStatsEnabled P
                       then emit P (JMP (crashHandler s3)) (emit P ABI_CallFunction_NoBlockExits s3)
                       else s3))
                    (targetOffset block1 + MIN_BLOCK_NORMAL_LEN)"
      unfolding padded_body_end_def Let_def s3_def r_def e1 t by (rule refl)
    have 1: "GetNativeBlock s' block_num
              = Some \<lparr>checkedOffset = padded_body_end P block block_num s\<rparr>"
      using that by (simp add: GetNativeBlock_def s' CompileBlock_finish_frame(1) pe)
    have 2: "padded_body_end P block block_num s \<le> code_ptr s'"
      unfolding s' pe by (rule CompileBlock_finish_frame(3))
    have 3: "code_ptr s' = padded_body_end P block block_num s" if "\<not> enableBlocklink (jo s)"
      unfolding s' pe using that
      by (intro CompileBlock_finish_frame(4)) (simp add: j3 j1)
    have 4: "targetOffset block' + MIN_BLOCK_NORMAL_LEN \<le> padded_body_end P block block_num s"
      by (simp add: pe b)
    from 1 2 3 4 t b show ?thesis by simp
  qed
  have nz: "\<exists>nb. GetNativeBlock s' block_num = Some nb \<and> checkedOffset nb \<noteq> 0"
    if "0 < code_ptr s"
  proof (cases "forward_check s")
    case True
    with fwd that show ?thesis by simp
  next
    case False
    from nf [OF False] that have "0 < padded_body_end P block block_num s"
      by (simp add: MIN_BLOCK_NORMAL_LEN_def)
    with nf [OF False] show ?thesis by simp
  qed
  from fwd nf nz show ?thesis by blast
qed

theorem CompileBlock_checkedOffset_witness:
  "fst (CompileBlock x64 block0 7 False backend0)
   \<and> forward_check backend0 \<and> 0 < code_ptr backend0
   \<and> GetNativeBlock (snd (snd (CompileBlock x64 block0 7 False backend0))) 7
       = Some \<lparr>checkedOffset = 0x100\<rparr>
   \<and> targetOffset (fst (snd (CompileBlock x64 block0 7 False backend0))) = 0x110
   \<and> fst (CompileBlock x64 block0 7 False backend5)
   \<and> \<not> forward_check backend5 \<and> \<not> enableBlocklink (jo backend5)
   \<and> GetNativeBlock (snd (snd (CompileBlock x64 block0 7 False backend5))) 7
       = Some \<lparr>checkedOffset = 0x112\<rparr>
   \<and> targetOffset (fst (snd (CompileBlock x64 block0 7 False backend5))) = 0x100
   \<and> code_ptr (snd (snd (CompileBlock x64 block0 7 False backend5))) = 0x112"
proof -
  have h: "CompileBlock x64 block0 7 False backend0 =
             (True, fst (snd (CompileBlock x64 block0 7 False backend0)),
              snd (snd (CompileBlock x64 block0 7 False backend0)))"
    using block0_compiles by (simp add: prod_eq_iff)
  have h5: "CompileBlock x64 block0 7 False backend5 =
             (True, fst (snd (CompileBlock x64 block0 7 False backend5)),
              snd (snd (CompileBlock x64 block0 7 False backend5)))"
    using block0_compiles_unlinked by (simp add: prod_eq_iff)
  have f: "forward_check backend0" "0 < code_ptr backend0" "code_ptr backend0 = 0x100"
    by (simp_all add: forward_check_def backend0_def)
  have f5: "\<not> forward_check backend5" "\<not> enableBlocklink (jo backend5)"
    "code_ptr backend5 = 0x100"
    by (simp_all add: forward_check_def backend5_def backend0_def)
  from CompileBlock_checkedOffset [OF h] f
  have a: "GetNativeBlock (snd (snd (CompileBlock x64 block0 7 False backend0))) 7
       = Some \<lparr>checkedOffset = 0x100\<rparr>"
    "targetOffset (fst (snd (CompileBlock x64 block0 7 False backend0))) = 0x110"
    by (simp_all add: entry_guard_block0)
  from CompileBlock_checkedOffset [OF h5] f5
  have b: "GetNativeBlock (snd (snd (CompileBlock x64 block0 7 False backend5))) 7
       = Some \<lparr>checkedOffset = 0x112\<rparr>"
    "targetOffset (fst (snd (CompileBlock x64 block0 7 False backend5))) = 0x100"
    "code_ptr (snd (snd (CompileBlock x64 block0 7 False backend5))) = 0x112"
    by (simp_all add: padded_body_end_block0)
  from block0_compiles block0_compiles_unlinked f f5 a b show ?thesis by blast
qed

text \<open>
  C10. \<open>InvalidateBlock\<close> always runs the link-erase step: whatever the block's guest
  PC, the records left are those that do not target the block id. When the guest PC
  is 0, memory, page protections and cursor are as they were.
\<close>

theorem InvalidateBlock_erases_links:
  "exits (InvalidateBlock P block block_num s)
     = filter (\<lambda>r. \<not> targets s r block_num) (exits s)
   \<and> (\<forall>r \<in> set (exits (InvalidateBlock P block block_num s)).
          blocks (InvalidateBlock P block block_num s) (exit_dest r) \<noteq> block_num)
   \<and> (originalStart block = 0 \<longrightarrow>
         mem (InvalidateBlock P block block_num s) = mem s
         \<and> prot (InvalidateBlock P block block_num s) = prot s
         \<and> code_ptr (InvalidateBlock P block block_num s) = code_ptr s)"
proof (intro conjI impI ballI)
  show "exits (InvalidateBlock P block block_num s)
     = filter (\<lambda>r. \<not> targets s r block_num) (exits s)"
    by (rule exits_InvalidateBlock)
next
  fix r
  assume "r \<in> set (exits (InvalidateBlock P block block_num s))"
  then have "\<not> targets s r block_num" by (simp add: exits_InvalidateBlock)
  then show "blocks (InvalidateBlock P block block_num s) (exit_dest r) \<noteq> block_num"
    by (simp add: targets_def blocks_InvalidateBlock)
qed (simp_all add: InvalidateBlock_pc0 EraseAllLinks_frame)

theorem InvalidateBlock_erases_links_witness:
  "originalStart (block3\<lparr>originalStart := 0\<rparr>) = 0
   \<and> exits backend3
       = [\<lparr>exit_block = 7, exit_dest = 0x8804100, exit_offset = 0x118, exit_len = 16\<rparr>,
          \<lparr>exit_block = 7, exit_dest = 0x8804200, exit_offset = 0x130, exit_len = 16\<rparr>]
   \<and> exits (InvalidateBlock x64 (block3\<lparr>originalStart := 0\<rparr>) 3 backend3)
       = [\<lparr>exit_block = 7, exit_dest = 0x8804200, exit_offset = 0x130, exit_len = 16\<rparr>]
   \<and> blocks (InvalidateBlock x64 (block3\<lparr>originalStart := 0\<rparr>) 3 backend3) 0x8804200 \<noteq> 3
   \<and> mem (InvalidateBlock x64 (block3\<lparr>originalStart := 0\<rparr>) 3 backend3) = mem backend3
   \<and> prot (InvalidateBlock x64 (block3\<lparr>originalStart := 0\<rparr>) 3 backend3) = prot backend3
   \<and> code_ptr (InvalidateBlock x64 (block3\<lparr>originalStart := 0\<rparr>) 3 backend3) = code_ptr backend3"
proof -
  have h0: "originalStart (block3\<lparr>originalStart := 0\<rparr>) = 0" by simp
  have e: "exits backend3
       = [\<lparr>exit_block = 7, exit_dest = 0x8804100, exit_offset = 0x118, exit_len = 16\<rparr>,
          \<lparr>exit_block = 7, exit_dest = 0x8804200, exit_offset = 0x130, exit_len = 16\<rparr>]"
    by (simp add: backend3_def)
  have f: "filter (\<lambda>r. \<not> targets backend3 r 3) (exits backend3)
       = [\<lparr>exit_block = 7, exit_dest = 0x8804200, exit_offset = 0x130, exit_len = 16\<rparr>]"
    by (simp add: backend3_def backend1_def backend0_def targets_def)
  note T = InvalidateBlock_erases_links [of x64 "block3\<lparr>originalStart := 0\<rparr>" 3 backend3]
  from T f have x: "exits (InvalidateBlock x64 (block3\<lparr>originalStart := 0\<rparr>) 3 backend3)
       = [\<lparr>exit_block = 7, exit_dest = 0x8804200, exit_offset = 0x130, exit_len = 16\<rparr>]"
    by simp
  from T x have b: "blocks (InvalidateBlock x64 (block3\<lparr>originalStart := 0\<rparr>) 3 backend3) 0x8804200 \<noteq> 3"
    by simp
  from T h0 have m: "mem (InvalidateBlock x64 (block3\<lparr>originalStart := 0\<rparr>) 3 backend3) = mem backend3"
    "prot (InvalidateBlock x64 (block3\<lparr>originalStart := 0\<rparr>) 3 backend3) = prot backend3"
    "code_ptr (InvalidateBlock x64 (block3\<lparr>originalStart := 0\<rparr>) 3 backend3) = code_ptr backend3"
    by blast+
  from h0 e x b m show ?thesis by blast
qed

end
